theory Spec2Isabelle
  imports Complex_Main "HOL-Library.AList" "HOL-Library.Sublist"
begin

section \<open>Numbers and exceptions\<close>

text \<open>
  Python numbers are modelled by exact reals: an \<open>int\<close> and a \<open>float\<close> argument with
  the same value behave alike in every arithmetic expression of the engine, and rounding,
  overflow and NaN are outside the model. The decimal literals \<open>0.1\<close>, \<open>0.99\<close> and
  \<open>1e-6\<close> are the exact fractions. Division is Python's: a zero divisor raises.
  Overflow, underflow and NaN are modelled for \<open>calculate_npv\<close> and \<open>calculate_irr\<close>
  in a section of their own, after \<open>calculate_roi\<close>.

  Every module-level function of \<open>src/utils/calculations.py\<close> wraps its body in
  \<open>try: ... except Exception as e: raise ValueError(...)\<close>, so whatever is raised
  inside leaves the function as a \<open>ValueError\<close>; the message text is not modelled.
\<close>

datatype error =
  ZeroDivisionError | OverflowError | IndexError | KeyError | TypeError | ValueError

definition reraise_ValueError :: "error + 'a \<Rightarrow> error + 'a" where
  "reraise_ValueError m = (case m of Inl e \<Rightarrow> Inl ValueError | Inr x \<Rightarrow> Inr x)"

definition py_div :: "real \<Rightarrow> real \<Rightarrow> error + real" where
  "py_div x y = (if y = 0 then Inl ZeroDivisionError else Inr (x / y))"

section \<open>src/utils/calculations.py\<close>

subsection \<open>calculate_npv\<close>

text \<open>
  \<^verbatim>\<open>npv = 0
for i, cash_flow in enumerate(cash_flows):
    npv += cash_flow / ((1 + discount_rate) ** i)
return npv\<close>
  The index \<open>i\<close> of \<open>enumerate\<close> and the accumulator \<open>npv\<close> are arguments of the loop.
\<close>

fun npv_loop :: "real \<Rightarrow> nat \<Rightarrow> real list \<Rightarrow> real \<Rightarrow> error + real" where
  "npv_loop discount_rate i [] npv = Inr npv"
| "npv_loop discount_rate i (cash_flow # rest) npv =
     (case py_div cash_flow ((1 + discount_rate) ^ i) of
        Inl e \<Rightarrow> Inl e
      | Inr t \<Rightarrow> npv_loop discount_rate (Suc i) rest (npv + t))"

definition calculate_npv :: "real list \<Rightarrow> real \<Rightarrow> error + real" where
  "calculate_npv cash_flows discount_rate =
     reraise_ValueError (npv_loop discount_rate 0 cash_flows 0)"

subsection \<open>calculate_irr\<close>

text \<open>
  Python's \<open>sum\<close> over a generator: the terms are produced one at a time and added to
  the running total, which starts at 0; the first term that raises ends the sum.
\<close>

fun py_sum :: "(error + real) list \<Rightarrow> real \<Rightarrow> error + real" where
  "py_sum [] running = Inr running"
| "py_sum (Inl e # ts) running = Inl e"
| "py_sum (Inr t # ts) running = py_sum ts (running + t)"

text \<open>
  \<^verbatim>\<open>npv = sum(cf / (1 + rate) ** i for i, cf in enumerate(cash_flows))
dnpv = sum(-i * cf / (1 + rate) ** (i + 1) for i, cf in enumerate(cash_flows) if i > 0)\<close>
  (\<open>**\<close> binds tighter than \<open>/\<close> and than the unary minus.)
\<close>

definition irr_npv :: "real list \<Rightarrow> real \<Rightarrow> error + real" where
  "irr_npv cash_flows rate =
     py_sum (map (\<lambda>(i, cf). py_div cf ((1 + rate) ^ i)) (enumerate 0 cash_flows)) 0"

definition irr_dnpv :: "real list \<Rightarrow> real \<Rightarrow> error + real" where
  "irr_dnpv cash_flows rate =
     py_sum (map (\<lambda>(i, cf). py_div (- real i * cf) ((1 + rate) ^ (i + 1)))
               (filter (\<lambda>(i, cf). i > 0) (enumerate 0 cash_flows))) 0"

text \<open>
  The three ways the solver hands back a rate: the \<open>return rate\<close> inside the loop
  (\<open>abs(npv) < tolerance\<close>), the \<open>break\<close> on a small derivative, and the end of
  \<open>range(max_iterations)\<close>. The source returns the bare rate in all three; the tag
  records which exit was taken.
\<close>

datatype irr_exit = Converged | Stalled | Exhausted

fun irr_loop :: "real list \<Rightarrow> real \<Rightarrow> nat \<Rightarrow> real \<Rightarrow> error + (irr_exit \<times> real)" where
  "irr_loop cash_flows tolerance 0 rate = Inr (Exhausted, rate)"
| "irr_loop cash_flows tolerance (Suc n) rate =
     (case irr_npv cash_flows rate of
        Inl e \<Rightarrow> Inl e
      | Inr npv \<Rightarrow>
         (case irr_dnpv cash_flows rate of
            Inl e \<Rightarrow> Inl e
          | Inr dnpv \<Rightarrow>
             if \<bar>npv\<bar> < tolerance then Inr (Converged, rate)
             else if \<bar>dnpv\<bar> < tolerance then Inr (Stalled, rate)
             else
               (case py_div npv dnpv of
                  Inl e \<Rightarrow> Inl e
                | Inr q \<Rightarrow>
                   (let rate' = rate - q
                    in irr_loop cash_flows tolerance n
                         (if rate' < - (99 / 100) then - (99 / 100) else rate')))))"

definition irr_solve :: "real list \<Rightarrow> int \<Rightarrow> real \<Rightarrow> error + (irr_exit \<times> real)" where
  "irr_solve cash_flows max_iterations tolerance =
     reraise_ValueError
       (if length cash_flows < 2 then Inl ValueError
        else irr_loop cash_flows tolerance (nat max_iterations) (1 / 10))"

definition calculate_irr :: "real list \<Rightarrow> int \<Rightarrow> real \<Rightarrow> error + real" where
  "calculate_irr cash_flows max_iterations tolerance =
     map_sum id snd (irr_solve cash_flows max_iterations tolerance)"

subsection \<open>calculate_payback_period\<close>

text \<open>
  \<open>annual_cash_flows[-1]\<close> raises \<open>IndexError\<close> on an empty list; both divisions raise
  on a zero flow. \<open>flows\<close> is the whole list, \<open>year\<close> the index of \<open>enumerate\<close>.
\<close>

fun payback_loop :: "real \<Rightarrow> real list \<Rightarrow> nat \<Rightarrow> real list \<Rightarrow> real \<Rightarrow> error + real" where
  "payback_loop initial_investment flows year [] cumulative_cash_flow =
     (if flows = [] then Inl IndexError
      else
        (case py_div (initial_investment - cumulative_cash_flow) (last flows) of
           Inl e \<Rightarrow> Inl e
         | Inr q \<Rightarrow> Inr (real (length flows) + q)))"
| "payback_loop initial_investment flows year (cash_flow # rest) cumulative_cash_flow =
     (let cumulative_cash_flow = cumulative_cash_flow + cash_flow
      in if cumulative_cash_flow \<ge> initial_investment then
           (let excess = cumulative_cash_flow - initial_investment
            in case py_div excess cash_flow of
                 Inl e \<Rightarrow> Inl e
               | Inr fraction \<Rightarrow> Inr (real year + 1 - fraction))
         else payback_loop initial_investment flows (Suc year) rest cumulative_cash_flow)"

definition calculate_payback_period :: "real \<Rightarrow> real list \<Rightarrow> error + real" where
  "calculate_payback_period initial_investment annual_cash_flows =
     reraise_ValueError
       (payback_loop initial_investment annual_cash_flows 0 annual_cash_flows 0)"

subsection \<open>calculate_roi\<close>

definition calculate_roi :: "real \<Rightarrow> real \<Rightarrow> error + real" where
  "calculate_roi profit investment =
     reraise_ValueError
       (if investment = 0 then Inl ValueError
        else
          (case py_div profit investment of
             Inl e \<Rightarrow> Inl e
           | Inr q \<Rightarrow> Inr (q * 100)))"

section \<open>calculate_npv and calculate_irr over the kinds of a float\<close>

text \<open>
  With exact reals a power never overflows and a rate is always a number. Python's
  \<open>float\<close> has more kinds of value, and the two functions can meet all of them: a
  finite number, an infinity, or NaN. This section models \<open>calculate_npv\<close> and
  \<open>calculate_irr\<close> a second time, for arguments that are floats as their annotations
  say, with those kinds and with what Python does on them. Rounding to 53 bits is still
  left out: the finite result of an operation is its exact value, unless its magnitude
  reaches \<open>2^1024 - 2^970\<close>, from where on a double rounds to an infinity, or is at most
  \<open>2^-1075\<close>, up to where it rounds to zero.
\<close>

datatype pyfloat = Fin real | PInf | NInf | NaN

definition float_overflow :: real where
  "float_overflow = 2 ^ 1024 - 2 ^ 970"

definition float_underflow :: real where
  "float_underflow = 1 / 2 ^ 1075"

text \<open>The float that an operation with the exact result \<open>x\<close> returns.\<close>

definition fl :: "real \<Rightarrow> pyfloat" where
  "fl x =
     (if float_overflow \<le> x then PInf
      else if x \<le> - float_overflow then NInf
      else if \<bar>x\<bar> \<le> float_underflow then Fin 0
      else Fin x)"

fun is_inf :: "pyfloat \<Rightarrow> bool" where
  "is_inf PInf = True"
| "is_inf NInf = True"
| "is_inf x = False"

text \<open>The sign of a float that is not NaN, and the number of a finite one.\<close>

fun fsign :: "pyfloat \<Rightarrow> real" where
  "fsign (Fin x) = sgn x"
| "fsign PInf = 1"
| "fsign NInf = - 1"
| "fsign NaN = 0"

fun fval :: "pyfloat \<Rightarrow> real" where
  "fval (Fin x) = x"
| "fval x = 0"

definition signed_inf :: "real \<Rightarrow> pyfloat" where
  "signed_inf sign = (if sign = 0 then NaN else if 0 < sign then PInf else NInf)"

text \<open>
  Addition, subtraction and multiplication raise nothing: an overflow gives an infinity,
  \<open>inf - inf\<close> and \<open>0 * inf\<close> give NaN, and NaN stays NaN.
\<close>

definition fadd :: "pyfloat \<Rightarrow> pyfloat \<Rightarrow> pyfloat" where
  "fadd a b =
     (if a = NaN \<or> b = NaN then NaN
      else if is_inf a \<and> is_inf b then (if a = b then a else NaN)
      else if is_inf a then a
      else if is_inf b then b
      else fl (fval a + fval b))"

fun fneg :: "pyfloat \<Rightarrow> pyfloat" where
  "fneg (Fin x) = Fin (- x)"
| "fneg PInf = NInf"
| "fneg NInf = PInf"
| "fneg NaN = NaN"

definition fsub :: "pyfloat \<Rightarrow> pyfloat \<Rightarrow> pyfloat" where
  "fsub a b = fadd a (fneg b)"

definition fmul :: "pyfloat \<Rightarrow> pyfloat \<Rightarrow> pyfloat" where
  "fmul a b =
     (if a = NaN \<or> b = NaN then NaN
      else if is_inf a \<or> is_inf b then signed_inf (fsign a * fsign b)
      else fl (fval a * fval b))"

text \<open>
  True division raises \<open>ZeroDivisionError\<close> when the divisor is zero, whatever the
  dividend is, and nothing else: \<open>inf / inf\<close> is NaN, a finite number by an infinity is
  zero, an overflow is an infinity.
\<close>

definition fdiv :: "pyfloat \<Rightarrow> pyfloat \<Rightarrow> error + pyfloat" where
  "fdiv a b =
     (if b = Fin 0 then Inl ZeroDivisionError
      else Inr
        (if a = NaN \<or> b = NaN then NaN
         else if is_inf a \<and> is_inf b then NaN
         else if is_inf a then signed_inf (fsign a * fsign b)
         else if is_inf b then Fin 0
         else fl (fval a / fval b)))"

text \<open>
  \<open>x ** i\<close> for a float \<open>x\<close> and an integer \<open>i \<ge> 0\<close>: \<open>x ** 0\<close> is \<open>1.0\<close> for every
  \<open>x\<close>, NaN included; a finite result that overflows raises \<open>OverflowError\<close>, unlike in
  the other operations; one that underflows is \<open>0.0\<close>.
\<close>

definition fpow :: "pyfloat \<Rightarrow> nat \<Rightarrow> error + pyfloat" where
  "fpow a i =
     (if i = 0 then Inr (Fin 1)
      else
        (case a of
           NaN \<Rightarrow> Inr NaN
         | PInf \<Rightarrow> Inr PInf
         | NInf \<Rightarrow> Inr (if odd i then NInf else PInf)
         | Fin x \<Rightarrow>
             if float_overflow \<le> \<bar>x ^ i\<bar> then Inl OverflowError else Inr (fl (x ^ i))))"

fun fabs :: "pyfloat \<Rightarrow> pyfloat" where
  "fabs (Fin x) = Fin \<bar>x\<bar>"
| "fabs PInf = PInf"
| "fabs NInf = PInf"
| "fabs NaN = NaN"

text \<open>\<open>a < b\<close> and \<open>a <= b\<close>: every comparison with NaN is false.\<close>

fun fless :: "pyfloat \<Rightarrow> pyfloat \<Rightarrow> bool" where
  "fless NaN b = False"
| "fless a NaN = False"
| "fless a NInf = False"
| "fless NInf b = True"
| "fless PInf b = False"
| "fless a PInf = True"
| "fless (Fin x) (Fin y) = (x < y)"

fun fless_eq :: "pyfloat \<Rightarrow> pyfloat \<Rightarrow> bool" where
  "fless_eq NaN b = False"
| "fless_eq a NaN = False"
| "fless_eq NInf b = True"
| "fless_eq a NInf = False"
| "fless_eq a PInf = True"
| "fless_eq PInf b = False"
| "fless_eq (Fin x) (Fin y) = (x \<le> y)"

subsection \<open>calculate_npv\<close>

text \<open>
  \<^verbatim>\<open>npv += cash_flow / ((1 + discount_rate) ** i)\<close>: the power is computed first and
  may raise, then the division.
\<close>

fun npv_loop_float ::
  "pyfloat \<Rightarrow> nat \<Rightarrow> pyfloat list \<Rightarrow> pyfloat \<Rightarrow> error + pyfloat" where
  "npv_loop_float discount_rate i [] npv = Inr npv"
| "npv_loop_float discount_rate i (cash_flow # rest) npv =
     (case fpow (fadd (Fin 1) discount_rate) i of
        Inl e \<Rightarrow> Inl e
      | Inr p \<Rightarrow>
          (case fdiv cash_flow p of
             Inl e \<Rightarrow> Inl e
           | Inr t \<Rightarrow> npv_loop_float discount_rate (Suc i) rest (fadd npv t)))"

definition calculate_npv_float :: "pyfloat list \<Rightarrow> pyfloat \<Rightarrow> error + pyfloat" where
  "calculate_npv_float cash_flows discount_rate =
     reraise_ValueError (npv_loop_float discount_rate 0 cash_flows (Fin 0))"

subsection \<open>calculate_irr\<close>

fun py_sum_float :: "(error + pyfloat) list \<Rightarrow> pyfloat \<Rightarrow> error + pyfloat" where
  "py_sum_float [] running = Inr running"
| "py_sum_float (Inl e # ts) running = Inl e"
| "py_sum_float (Inr t # ts) running = py_sum_float ts (fadd running t)"

definition npv_term :: "pyfloat \<Rightarrow> nat \<Rightarrow> pyfloat \<Rightarrow> error + pyfloat" where
  "npv_term rate i cf =
     (case fpow (fadd (Fin 1) rate) i of Inl e \<Rightarrow> Inl e | Inr p \<Rightarrow> fdiv cf p)"

definition dnpv_term :: "pyfloat \<Rightarrow> nat \<Rightarrow> pyfloat \<Rightarrow> error + pyfloat" where
  "dnpv_term rate i cf =
     (case fpow (fadd (Fin 1) rate) (i + 1) of
        Inl e \<Rightarrow> Inl e
      | Inr p \<Rightarrow> fdiv (fmul (Fin (- real i)) cf) p)"

definition irr_npv_float :: "pyfloat list \<Rightarrow> pyfloat \<Rightarrow> error + pyfloat" where
  "irr_npv_float cash_flows rate =
     py_sum_float (map (\<lambda>(i, cf). npv_term rate i cf) (enumerate 0 cash_flows)) (Fin 0)"

definition irr_dnpv_float :: "pyfloat list \<Rightarrow> pyfloat \<Rightarrow> error + pyfloat" where
  "irr_dnpv_float cash_flows rate =
     py_sum_float (map (\<lambda>(i, cf). dnpv_term rate i cf)
                     (filter (\<lambda>(i, cf). i > 0) (enumerate 0 cash_flows))) (Fin 0)"

text \<open>
  The loop of the solver. The clamp is \<open>if rate < -0.99: rate = -0.99\<close>, a comparison
  that is false for NaN.
\<close>

fun irr_loop_float :: "pyfloat list \<Rightarrow> pyfloat \<Rightarrow> nat \<Rightarrow> pyfloat \<Rightarrow> error + pyfloat" where
  "irr_loop_float cash_flows tolerance 0 rate = Inr rate"
| "irr_loop_float cash_flows tolerance (Suc n) rate =
     (case irr_npv_float cash_flows rate of
        Inl e \<Rightarrow> Inl e
      | Inr npv \<Rightarrow>
         (case irr_dnpv_float cash_flows rate of
            Inl e \<Rightarrow> Inl e
          | Inr dnpv \<Rightarrow>
             if fless (fabs npv) tolerance then Inr rate
             else if fless (fabs dnpv) tolerance then Inr rate
             else
               (case fdiv npv dnpv of
                  Inl e \<Rightarrow> Inl e
                | Inr q \<Rightarrow>
                   (let rate' = fsub rate q
                    in irr_loop_float cash_flows tolerance n
                         (if fless rate' (Fin (- (99 / 100))) then Fin (- (99 / 100))
                          else rate')))))"

definition calculate_irr_float :: "pyfloat list \<Rightarrow> int \<Rightarrow> pyfloat \<Rightarrow> error + pyfloat" where
  "calculate_irr_float cash_flows max_iterations tolerance =
     reraise_ValueError
       (if length cash_flows < 2 then Inl ValueError
        else irr_loop_float cash_flows tolerance (nat max_iterations) (Fin (1 / 10)))"

section \<open>src/economics/profitability.py\<close>

subsection \<open>The metrics computed by analyze_profitability\<close>

text \<open>
  The dictionary that \<open>analyze_profitability\<close> builds, with its keys as fields.
\<close>

record profitability_result =
  npv :: real
  irr :: real
  payback_period :: real
  roi :: real
  profitability_index :: real
  annual_cash_flow :: real
  total_revenue :: real
  total_costs :: real
  break_even_price :: real

text \<open>
  The body of \<open>for year in range(1, project_lifetime + 1)\<close>: the flow appended for
  \<open>year\<close>.
\<close>

definition year_cash_flow ::
  "real \<Rightarrow> real \<Rightarrow> real \<Rightarrow> real \<Rightarrow> real \<Rightarrow> int \<Rightarrow> int \<Rightarrow> real" where
  "year_cash_flow annual_revenue annual_operating_costs annual_depreciation tax_rate
       salvage_value project_lifetime year =
     (let gross_profit = annual_revenue - annual_operating_costs;
          taxable_income = gross_profit - annual_depreciation;
          taxes = max 0 (taxable_income * tax_rate);
          after_tax_income = taxable_income - taxes;
          cash_flow = after_tax_income + annual_depreciation
      in if year = project_lifetime then cash_flow + salvage_value else cash_flow)"

text \<open>
  Lines 60 to 79: the depreciation and the list \<open>cash_flows\<close>. \<open>[1..n]\<close> is
  \<open>range(1, n + 1)\<close>, empty when \<open>n < 1\<close>.
\<close>

definition build_cash_flows ::
  "real \<Rightarrow> real \<Rightarrow> real \<Rightarrow> int \<Rightarrow> real \<Rightarrow> real \<Rightarrow> error + real list" where
  "build_cash_flows capital_investment annual_revenue annual_operating_costs
       project_lifetime tax_rate salvage_value =
     (case py_div (capital_investment - salvage_value) (of_int project_lifetime) of
        Inl e \<Rightarrow> Inl e
      | Inr annual_depreciation \<Rightarrow>
          Inr (- capital_investment #
               map (year_cash_flow annual_revenue annual_operating_costs annual_depreciation
                      tax_rate salvage_value project_lifetime)
                   [1..project_lifetime]))"

text \<open>
  \<^verbatim>\<open>annual_operating_costs / (annual_revenue / (annual_revenue - annual_operating_costs))
    if annual_revenue > annual_operating_costs else 0\<close>
\<close>

definition break_even :: "real \<Rightarrow> real \<Rightarrow> error + real" where
  "break_even annual_revenue annual_operating_costs =
     (if annual_revenue > annual_operating_costs then
        (case py_div annual_revenue (annual_revenue - annual_operating_costs) of
           Inl e \<Rightarrow> Inl e
         | Inr d \<Rightarrow> py_div annual_operating_costs d)
      else Inr 0)"

text \<open>
  The \<open>try\<close> block up to the dictionary display, with \<open>calculate_irr\<close> called on its
  defaults \<open>max_iterations = 1000\<close> and \<open>tolerance = 1e-6\<close>; the \<open>except\<close> clause
  re-raises everything as \<open>ValueError\<close>.
\<close>

definition profitability_metrics ::
  "real \<Rightarrow> real \<Rightarrow> real \<Rightarrow> int \<Rightarrow> real \<Rightarrow> real \<Rightarrow> real \<Rightarrow> error + profitability_result" where
  "profitability_metrics capital_investment annual_revenue annual_operating_costs
       project_lifetime discount_rate tax_rate salvage_value =
     reraise_ValueError
      (case build_cash_flows capital_investment annual_revenue annual_operating_costs
              project_lifetime tax_rate salvage_value of
         Inl e \<Rightarrow> Inl e
       | Inr cash_flows \<Rightarrow>
      (case calculate_npv cash_flows discount_rate of
         Inl e \<Rightarrow> Inl e
       | Inr npv' \<Rightarrow>
      (case calculate_irr cash_flows 1000 (1 / 1000000) of
         Inl e \<Rightarrow> Inl e
       | Inr irr' \<Rightarrow>
      (case calculate_payback_period capital_investment (tl cash_flows) of
         Inl e \<Rightarrow> Inl e
       | Inr payback_period' \<Rightarrow>
      (case calculate_roi (annual_revenue - annual_operating_costs) capital_investment of
         Inl e \<Rightarrow> Inl e
       | Inr roi' \<Rightarrow>
      (case py_div (npv' + capital_investment) capital_investment of
         Inl e \<Rightarrow> Inl e
       | Inr profitability_index' \<Rightarrow>
      (case break_even annual_revenue annual_operating_costs of
         Inl e \<Rightarrow> Inl e
       | Inr break_even_price' \<Rightarrow>
          Inr \<lparr> npv = npv',
                irr = irr' * 100,
                payback_period = payback_period',
                roi = roi',
                profitability_index = profitability_index',
                annual_cash_flow = (if length cash_flows > 1 then cash_flows ! 1 else 0),
                total_revenue = annual_revenue * of_int project_lifetime,
                total_costs = annual_operating_costs * of_int project_lifetime,
                break_even_price = break_even_price' \<rparr>)))))))"

subsection \<open>The analyzer object and the store\<close>

text \<open>
  \<open>ProfitabilityAnalyzer\<close> has one attribute, \<open>self.results\<close>, a reference to a
  dictionary object: \<open>{}\<close> after \<open>__init__\<close>, the latest result dictionary after a
  successful \<open>analyze_profitability\<close>. The dictionary objects live in a store; a
  reference is a position in it, and a new object is appended, so that its reference is
  one no earlier object has.
\<close>

type_synonym ref = nat

datatype dictobj = Empty_dict | Result_dict profitability_result

record analyzer_state =
  store :: "dictobj list"
  self_results :: ref

text \<open>\<open>__init__\<close>: \<open>self.results = {}\<close>.\<close>

definition init_analyzer :: "analyzer_state \<Rightarrow> analyzer_state" where
  "init_analyzer s =
     s\<lparr> store := store s @ [Empty_dict], self_results := length (store s) \<rparr>"

definition new_analyzer :: analyzer_state where
  "new_analyzer = init_analyzer \<lparr> store = [], self_results = 0 \<rparr>"

text \<open>
  \<^verbatim>\<open>self.results = {...}
return self.results\<close>
  A new dictionary object is created, the attribute is bound to it and the same reference
  is returned. When the \<open>try\<close> block raised, the assignment is not reached.
\<close>

definition store_results ::
  "error + profitability_result \<Rightarrow> analyzer_state \<Rightarrow> (error + ref) \<times> analyzer_state" where
  "store_results m s =
     (case m of
        Inl e \<Rightarrow> (Inl e, s)
      | Inr d \<Rightarrow>
          (Inr (length (store s)),
           s\<lparr> store := store s @ [Result_dict d], self_results := length (store s) \<rparr>))"

definition analyze_profitability ::
  "real \<Rightarrow> real \<Rightarrow> real \<Rightarrow> int \<Rightarrow> real \<Rightarrow> real \<Rightarrow> real \<Rightarrow> analyzer_state
     \<Rightarrow> (error + ref) \<times> analyzer_state" where
  "analyze_profitability capital_investment annual_revenue annual_operating_costs
       project_lifetime discount_rate tax_rate salvage_value s =
     store_results
       (profitability_metrics capital_investment annual_revenue annual_operating_costs
          project_lifetime discount_rate tax_rate salvage_value) s"

text \<open>
  Reading a key of a returned dictionary, \<open>results['npv']\<close>: the empty dictionary has no
  such key.
\<close>

definition read_results :: "analyzer_state \<Rightarrow> ref \<Rightarrow> error + profitability_result" where
  "read_results s a =
     (if a < length (store s) then
        (case store s ! a of
           Result_dict d \<Rightarrow> Inr d
         | Empty_dict \<Rightarrow> Inl KeyError)
      else Inl KeyError)"

subsection \<open>Calls with keyword arguments\<close>

text \<open>
  \<open>sensitivity_analysis\<close> and \<open>monte_carlo_analysis\<close> call
  \<open>self.analyze_profitability(**params)\<close> with a dictionary of Python numbers. A value
  is an \<open>int\<close> or a \<open>float\<close>; the difference matters for \<open>project_lifetime\<close> only,
  which \<open>range\<close> accepts as an \<open>int\<close> and refuses as a \<open>float\<close>. A dictionary is an
  association list in insertion order.
\<close>

datatype pyval = PInt int | PFloat real

fun num :: "pyval \<Rightarrow> real" where
  "num (PInt i) = of_int i"
| "num (PFloat x) = x"

type_synonym kwargs = "(string \<times> pyval) list"

definition parameter_names :: "string list" where
  "parameter_names =
     [''capital_investment'', ''annual_revenue'', ''annual_operating_costs'',
      ''project_lifetime'', ''discount_rate'', ''tax_rate'', ''salvage_value'']"

definition required_names :: "string list" where
  "required_names =
     [''capital_investment'', ''annual_revenue'', ''annual_operating_costs'',
      ''project_lifetime'', ''discount_rate'']"

definition kwarg :: "kwargs \<Rightarrow> string \<Rightarrow> real \<Rightarrow> real" where
  "kwarg kw name dflt =
     (case map_of kw name of Some v \<Rightarrow> num v | None \<Rightarrow> dflt)"

text \<open>
  Binding the keywords raises \<open>TypeError\<close> before the body runs, for a keyword that is
  no parameter and for a missing parameter without default (\<open>tax_rate = 0.3\<close>,
  \<open>salvage_value = 0\<close>). With a \<open>float\<close> lifetime the body raises inside its
  \<open>try\<close>, \<open>ZeroDivisionError\<close> for \<open>0.0\<close> and otherwise \<open>TypeError\<close> from
  \<open>range\<close>, re-raised as \<open>ValueError\<close>.
\<close>

definition profitability_metrics_kw :: "kwargs \<Rightarrow> error + profitability_result" where
  "profitability_metrics_kw kw =
     (if list_ex (\<lambda>name. name \<notin> set parameter_names) (map fst kw) then Inl TypeError
      else if list_ex (\<lambda>name. map_of kw name = None) required_names then Inl TypeError
      else
        (case map_of kw ''project_lifetime'' of
           None \<Rightarrow> Inl TypeError
         | Some (PFloat x) \<Rightarrow> Inl ValueError
         | Some (PInt project_lifetime) \<Rightarrow>
             profitability_metrics
               (kwarg kw ''capital_investment'' 0)
               (kwarg kw ''annual_revenue'' 0)
               (kwarg kw ''annual_operating_costs'' 0)
               project_lifetime
               (kwarg kw ''discount_rate'' 0)
               (kwarg kw ''tax_rate'' (3 / 10))
               (kwarg kw ''salvage_value'' 0)))"

definition analyze_profitability_kw ::
  "kwargs \<Rightarrow> analyzer_state \<Rightarrow> (error + ref) \<times> analyzer_state" where
  "analyze_profitability_kw kw s = store_results (profitability_metrics_kw kw) s"

subsection \<open>sensitivity_analysis\<close>

text \<open>
  One entry of \<open>sensitivity_results\<close>; the \<open>DataFrame\<close> built from the list is the
  list of its rows.
\<close>

record sensitivity_row =
  row_parameter :: string
  row_change_percent :: real
  row_npv :: real
  row_irr :: real
  row_payback_period :: real

text \<open>
  The inner loop \<open>for change_percent in changes\<close>. There is no \<open>try\<close> in
  \<open>sensitivity_analysis\<close>: an exception of the call leaves the method.
\<close>

fun sensitivity_changes ::
  "kwargs \<Rightarrow> string \<Rightarrow> pyval \<Rightarrow> real list \<Rightarrow> sensitivity_row list \<Rightarrow> analyzer_state
     \<Rightarrow> (error + sensitivity_row list) \<times> analyzer_state" where
  "sensitivity_changes base_parameters param_name base_value [] sensitivity_results s =
     (Inr sensitivity_results, s)"
| "sensitivity_changes base_parameters param_name base_value (change_percent # rest)
       sensitivity_results s =
     (let new_value = PFloat (num base_value * (1 + change_percent / 100));
          modified_params = AList.update param_name new_value base_parameters
      in case analyze_profitability_kw modified_params s of
           (Inl e, s') \<Rightarrow> (Inl e, s')
         | (Inr a, s') \<Rightarrow>
             (case read_results s' a of
                Inl e \<Rightarrow> (Inl e, s')
              | Inr d \<Rightarrow>
                  sensitivity_changes base_parameters param_name base_value rest
                    (sensitivity_results @
                       [\<lparr> row_parameter = param_name,
                           row_change_percent = change_percent,
                           row_npv = npv d,
                           row_irr = irr d,
                           row_payback_period = payback_period d \<rparr>]) s'))"

text \<open>The outer loop \<open>for param_name, changes in sensitivity_ranges.items()\<close>.\<close>

fun sensitivity_params ::
  "kwargs \<Rightarrow> (string \<times> real list) list \<Rightarrow> sensitivity_row list \<Rightarrow> analyzer_state
     \<Rightarrow> (error + sensitivity_row list) \<times> analyzer_state" where
  "sensitivity_params base_parameters [] sensitivity_results s = (Inr sensitivity_results, s)"
| "sensitivity_params base_parameters ((param_name, changes) # rest) sensitivity_results s =
     (case map_of base_parameters param_name of
        None \<Rightarrow> sensitivity_params base_parameters rest sensitivity_results s
      | Some base_value \<Rightarrow>
          (case sensitivity_changes base_parameters param_name base_value changes
                  sensitivity_results s of
             (Inl e, s') \<Rightarrow> (Inl e, s')
           | (Inr sensitivity_results', s') \<Rightarrow>
               sensitivity_params base_parameters rest sensitivity_results' s'))"

definition sensitivity_analysis ::
  "kwargs \<Rightarrow> (string \<times> real list) list \<Rightarrow> analyzer_state
     \<Rightarrow> (error + sensitivity_row list) \<times> analyzer_state" where
  "sensitivity_analysis base_parameters sensitivity_ranges s =
     sensitivity_params base_parameters sensitivity_ranges [] s"

subsection \<open>monte_carlo_analysis\<close>

text \<open>
  A distribution specification \<open>param_dist\<close> is a dictionary whose values are strings
  (the \<open>'type'\<close>) or numbers. Looking up a key that is not there raises \<open>KeyError\<close>.
\<close>

datatype dist_value = Str string | Num pyval

type_synonym param_dist = "(string \<times> dist_value) list"

definition getitem :: "param_dist \<Rightarrow> string \<Rightarrow> error + dist_value" where
  "getitem param_dist key =
     (case map_of param_dist key of None \<Rightarrow> Inl KeyError | Some v \<Rightarrow> Inr v)"

text \<open>The arguments of a call, looked up from left to right.\<close>

fun getitems :: "param_dist \<Rightarrow> string list \<Rightarrow> error + dist_value list" where
  "getitems param_dist [] = Inr []"
| "getitems param_dist (key # keys) =
     (case getitem param_dist key of
        Inl e \<Rightarrow> Inl e
      | Inr v \<Rightarrow>
          (case getitems param_dist keys of
             Inl e \<Rightarrow> Inl e
           | Inr vs \<Rightarrow> Inr (v # vs)))"

text \<open>
  The generator \<open>np.random\<close> is a parameter of the model: a function from the name of
  the numpy function called (\<open>normal\<close>, \<open>triangular\<close>, \<open>uniform\<close>), its arguments and
  the generator's state to the next state and either a sample or the exception numpy
  raises for arguments it refuses.
\<close>

type_synonym 'g sampler = "string \<Rightarrow> dist_value list \<Rightarrow> 'g \<Rightarrow> (error + real) \<times> 'g"

definition numpy_random ::
  "'g sampler \<Rightarrow> string \<Rightarrow> param_dist \<Rightarrow> string list \<Rightarrow> 'g \<Rightarrow> (error + dist_value) \<times> 'g"
  where
  "numpy_random sample name param_dist keys g =
     (case getitems param_dist keys of
        Inl e \<Rightarrow> (Inl e, g)
      | Inr args \<Rightarrow>
          (case sample name args g of
             (Inl e, g') \<Rightarrow> (Inl e, g')
           | (Inr x, g') \<Rightarrow> (Inr (Num (PFloat x)), g')))"

text \<open>
  \<^verbatim>\<open>if param_dist['type'] == 'normal':
    value = np.random.normal(param_dist['mean'], param_dist['std'])
elif param_dist['type'] == 'triangular':
    value = np.random.triangular(param_dist['min'], param_dist['mode'], param_dist['max'])
elif param_dist['type'] == 'uniform':
    value = np.random.uniform(param_dist['min'], param_dist['max'])
else:
    value = param_dist['mean']\<close>
\<close>

definition sampled_value ::
  "'g sampler \<Rightarrow> param_dist \<Rightarrow> 'g \<Rightarrow> (error + dist_value) \<times> 'g" where
  "sampled_value sample param_dist g =
     (case getitem param_dist ''type'' of
        Inl e \<Rightarrow> (Inl e, g)
      | Inr t \<Rightarrow>
          if t = Str ''normal'' then
            numpy_random sample ''normal'' param_dist [''mean'', ''std''] g
          else if t = Str ''triangular'' then
            numpy_random sample ''triangular'' param_dist [''min'', ''mode'', ''max''] g
          else if t = Str ''uniform'' then
            numpy_random sample ''uniform'' param_dist [''min'', ''max''] g
          else (getitem param_dist ''mean'', g))"

text \<open>
  \<open>max(0, value)\<close> is \<open>value\<close> when \<open>value > 0\<close> and the integer 0 otherwise;
  comparing a string with 0 raises \<open>TypeError\<close>.
\<close>

definition max0 :: "dist_value \<Rightarrow> error + pyval" where
  "max0 v =
     (case v of
        Str s \<Rightarrow> Inl TypeError
      | Num x \<Rightarrow> Inr (if num x > 0 then x else PInt 0))"

text \<open>
  The loop \<open>for param_name, param_dist in parameters.items()\<close> filling \<open>sim_params\<close>.
  It is outside the \<open>try\<close>: an exception of a look-up, of numpy or of \<open>max\<close> leaves
  \<open>monte_carlo_analysis\<close>.
\<close>

fun sample_params ::
  "'g sampler \<Rightarrow> (string \<times> param_dist) list \<Rightarrow> kwargs \<Rightarrow> 'g \<Rightarrow> (error + kwargs) \<times> 'g"
  where
  "sample_params sample [] sim_params g = (Inr sim_params, g)"
| "sample_params sample ((param_name, param_dist) # rest) sim_params g =
     (case sampled_value sample param_dist g of
        (Inl e, g') \<Rightarrow> (Inl e, g')
      | (Inr v, g') \<Rightarrow>
          (case max0 v of
             Inl e \<Rightarrow> (Inl e, g')
           | Inr clamped \<Rightarrow>
               sample_params sample rest (AList.update param_name clamped sim_params) g'))"

record simulation_row =
  sim_simulation :: nat
  sim_npv :: real
  sim_irr :: real
  sim_payback_period :: real
  sim_roi :: real

text \<open>
  The loop \<open>for _ in range(n_simulations)\<close>, with the bare \<open>except: continue\<close> around
  the call and the reads of its result, and around nothing else.
\<close>

fun monte_carlo_loop ::
  "'g sampler \<Rightarrow> (string \<times> param_dist) list \<Rightarrow> nat \<Rightarrow> simulation_row list \<Rightarrow> 'g
     \<Rightarrow> analyzer_state \<Rightarrow> (error + simulation_row list) \<times> 'g \<times> analyzer_state" where
  "monte_carlo_loop sample parameters 0 results g s = (Inr results, g, s)"
| "monte_carlo_loop sample parameters (Suc n) results g s =
     (case sample_params sample parameters [] g of
        (Inl e, g') \<Rightarrow> (Inl e, g', s)
      | (Inr sim_params, g') \<Rightarrow>
          (case analyze_profitability_kw sim_params s of
             (Inl e, s') \<Rightarrow> monte_carlo_loop sample parameters n results g' s'
           | (Inr a, s') \<Rightarrow>
               (case read_results s' a of
                  Inl e \<Rightarrow> monte_carlo_loop sample parameters n results g' s'
                | Inr d \<Rightarrow>
                    monte_carlo_loop sample parameters n
                      (results @
                         [\<lparr> sim_simulation = length results + 1,
                             sim_npv = npv d,
                             sim_irr = irr d,
                             sim_payback_period = payback_period d,
                             sim_roi = roi d \<rparr>]) g' s')))"

definition monte_carlo_analysis ::
  "'g sampler \<Rightarrow> (string \<times> param_dist) list \<Rightarrow> int \<Rightarrow> 'g \<Rightarrow> analyzer_state
     \<Rightarrow> (error + simulation_row list) \<times> 'g \<times> analyzer_state" where
  "monte_carlo_analysis sample parameters n_simulations g s =
     monte_carlo_loop sample parameters (nat n_simulations) [] g s"

section \<open>Reference functions\<close>

text \<open>
  The functions of this section are not in the source. They say, without the store, what
  the two drivers are expected to return, and the theorems compare the drivers with them.
\<close>

text \<open>The results of a sequence of calls that stops at the first exception.\<close>

fun until_error :: "(error + 'a) list \<Rightarrow> error + 'a list" where
  "until_error [] = Inr []"
| "until_error (Inl e # rs) = Inl e"
| "until_error (Inr x # rs) =
     (case until_error rs of Inl e \<Rightarrow> Inl e | Inr xs \<Rightarrow> Inr (x # xs))"

text \<open>The results of a sequence of calls whose exceptions are skipped.\<close>

fun successes :: "(error + 'a) list \<Rightarrow> 'a list" where
  "successes [] = []"
| "successes (Inl e # rs) = successes rs"
| "successes (Inr x # rs) = x # successes rs"

text \<open>
  The base parameters with \<open>param_name\<close> alone changed by \<open>change_percent\<close> per cent, and
  the row of the sensitivity table computed from them.
\<close>

definition perturbed :: "kwargs \<Rightarrow> string \<Rightarrow> pyval \<Rightarrow> real \<Rightarrow> kwargs" where
  "perturbed base_parameters param_name base_value change_percent =
     AList.update param_name (PFloat (num base_value * (1 + change_percent / 100)))
       base_parameters"

definition perturbed_row ::
  "kwargs \<Rightarrow> string \<Rightarrow> pyval \<Rightarrow> real \<Rightarrow> error + sensitivity_row" where
  "perturbed_row base_parameters param_name base_value change_percent =
     (case profitability_metrics_kw
             (perturbed base_parameters param_name base_value change_percent) of
        Inl e \<Rightarrow> Inl e
      | Inr d \<Rightarrow>
          Inr \<lparr> row_parameter = param_name,
                row_change_percent = change_percent,
                row_npv = npv d,
                row_irr = irr d,
                row_payback_period = payback_period d \<rparr>)"

definition perturbed_rows ::
  "kwargs \<Rightarrow> (string \<times> real list) list \<Rightarrow> (error + sensitivity_row) list" where
  "perturbed_rows base_parameters sensitivity_ranges =
     concat (map (\<lambda>(param_name, changes).
                    case map_of base_parameters param_name of
                      None \<Rightarrow> []
                    | Some base_value \<Rightarrow>
                        map (perturbed_row base_parameters param_name base_value) changes)
                 sensitivity_ranges)"

text \<open>
  The parameter dictionaries of \<open>n\<close> successive simulations, drawn from the generator
  state \<open>g\<close> on, or the first exception of a look-up or a draw.
\<close>

fun sampled_runs ::
  "'g sampler \<Rightarrow> (string \<times> param_dist) list \<Rightarrow> nat \<Rightarrow> 'g \<Rightarrow> error + kwargs list" where
  "sampled_runs sample parameters 0 g = Inr []"
| "sampled_runs sample parameters (Suc n) g =
     (case sample_params sample parameters [] g of
        (Inl e, g') \<Rightarrow> Inl e
      | (Inr sim_params, g') \<Rightarrow>
          (case sampled_runs sample parameters n g' of
             Inl e \<Rightarrow> Inl e
           | Inr runs \<Rightarrow> Inr (sim_params # runs)))"

text \<open>
  The same draws before \<open>max(0, value)\<close>: the dictionary of the values as they were
  sampled in one simulation, and those dictionaries for \<open>n\<close> successive simulations.
\<close>

fun drawn_values ::
  "'g sampler \<Rightarrow> (string \<times> param_dist) list \<Rightarrow> (string \<times> dist_value) list \<Rightarrow> 'g
     \<Rightarrow> (error + (string \<times> dist_value) list) \<times> 'g" where
  "drawn_values sample [] drawn g = (Inr drawn, g)"
| "drawn_values sample ((param_name, param_dist) # rest) drawn g =
     (case sampled_value sample param_dist g of
        (Inl e, g') \<Rightarrow> (Inl e, g')
      | (Inr v, g') \<Rightarrow> drawn_values sample rest (AList.update param_name v drawn) g')"

fun drawn_runs ::
  "'g sampler \<Rightarrow> (string \<times> param_dist) list \<Rightarrow> nat \<Rightarrow> 'g
     \<Rightarrow> error + (string \<times> dist_value) list list" where
  "drawn_runs sample parameters 0 g = Inr []"
| "drawn_runs sample parameters (Suc n) g =
     (case drawn_values sample parameters [] g of
        (Inl e, g') \<Rightarrow> Inl e
      | (Inr drawn, g') \<Rightarrow>
          (case drawn_runs sample parameters n g' of
             Inl e \<Rightarrow> Inl e
           | Inr runs \<Rightarrow> Inr (drawn # runs)))"

text \<open>An entry of \<open>sim_params\<close> is the clamped entry of the drawn dictionary.\<close>

definition clamped_entry :: "string \<times> dist_value \<Rightarrow> string \<times> pyval \<Rightarrow> bool" where
  "clamped_entry drawn used = (fst used = fst drawn \<and> max0 (snd drawn) = Inr (snd used))"

text \<open>The rows of the simulations that succeeded, numbered from \<open>k + 1\<close>.\<close>

fun numbered_rows :: "nat \<Rightarrow> profitability_result list \<Rightarrow> simulation_row list" where
  "numbered_rows k [] = []"
| "numbered_rows k (d # ds) =
     \<lparr> sim_simulation = k + 1,
       sim_npv = npv d,
       sim_irr = irr d,
       sim_payback_period = payback_period d,
       sim_roi = roi d \<rparr> # numbered_rows (Suc k) ds"

section \<open>An example project\<close>

text \<open>
  An investment of 100 repaid by a revenue of 110 after one year, without costs, tax or
  salvage value, discounted at ten per cent: the series \<open>[-100, 110]\<close>, whose net
  present value at the rate \<open>0.1\<close> is zero.
\<close>

definition base_case :: kwargs where
  "base_case =
     [(''capital_investment'', PFloat 100),
      (''annual_revenue'', PFloat 110),
      (''annual_operating_costs'', PFloat 0),
      (''project_lifetime'', PInt 1),
      (''discount_rate'', PFloat (1 / 10)),
      (''tax_rate'', PFloat 0),
      (''salvage_value'', PFloat 0)]"

text \<open>
  The same project for a simulation: the capital investment is drawn from a normal
  distribution, every other parameter is a constant. The generator of the example hands
  out the numbers of a list, one for each draw, and raises when the list is used up.
\<close>

definition fixed_value :: "pyval \<Rightarrow> param_dist" where
  "fixed_value v = [(''type'', Str ''constant''), (''mean'', Num v)]"

definition simulated_case :: "(string \<times> param_dist) list" where
  "simulated_case =
     [(''capital_investment'',
         [(''type'', Str ''normal''), (''mean'', Num (PFloat 100)), (''std'', Num (PFloat 10))]),
      (''annual_revenue'', fixed_value (PFloat 110)),
      (''annual_operating_costs'', fixed_value (PFloat 0)),
      (''project_lifetime'', fixed_value (PInt 1)),
      (''discount_rate'', fixed_value (PFloat (1 / 10))),
      (''tax_rate'', fixed_value (PFloat 0)),
      (''salvage_value'', fixed_value (PFloat 0))]"

definition scripted_sampler :: "real list sampler" where
  "scripted_sampler name args g =
     (case g of [] \<Rightarrow> (Inl ValueError, []) | x # xs \<Rightarrow> (Inr x, xs))"

section \<open>Properties of the calculation functions\<close>

subsection \<open>Internal rate of return\<close>




lemma irr_loop_breakeven:
  "irr_loop [- 100, 110] (1 / 1000000) 1000 (1 / 10) = Inr (Converged, 1 / 10)"
proof -
  have "irr_loop [- 100, 110] (1 / 1000000) (Suc n) (1 / 10) = Inr (Converged, 1 / 10)" for n
    by (simp add: irr_npv_def irr_dnpv_def py_div_def)
  from this [of 999] show ?thesis by simp
qed

lemma irr_solve_breakeven:
  "irr_solve [- 100, 110] 1000 (1 / 1000000) = Inr (Converged, 1 / 10)"
  by (simp add: irr_solve_def reraise_ValueError_def irr_loop_breakeven)

lemma calculate_irr_breakeven:
  "calculate_irr [- 100, 110] 1000 (1 / 1000000) = Inr (1 / 10)"
  by (simp add: calculate_irr_def irr_solve_breakeven)




section \<open>Properties over the kinds of a float\<close>

subsection \<open>The thresholds\<close>

lemma float_underflow_pos: "0 < float_underflow"
  by (simp add: float_underflow_def)

lemma float_underflow_less_overflow: "float_underflow < float_overflow"
proof -
  have "float_underflow \<le> 1" by (simp add: float_underflow_def)
  moreover have "(1 :: real) < float_overflow" by (simp add: float_overflow_def)
  ultimately show ?thesis by simp
qed

lemma fl_zero_iff: "fl v = Fin 0 \<longleftrightarrow> \<bar>v\<bar> \<le> float_underflow"
  using float_underflow_pos float_underflow_less_overflow
  by (auto simp: fl_def)

lemma fpow_overflow_iff:
  "fpow (Fin x) i = Inl OverflowError \<longleftrightarrow> 0 < i \<and> float_overflow \<le> \<bar>x ^ i\<bar>"
  by (auto simp: fpow_def)

lemma fpow_zero_iff:
  "fpow (Fin x) i = Inr (Fin 0) \<longleftrightarrow> 0 < i \<and> \<bar>x ^ i\<bar> \<le> float_underflow"
  using float_underflow_less_overflow
  by (auto simp: fpow_def fl_zero_iff)

subsection \<open>Net present value\<close>

lemma npv_term_raises:
  "isl (npv_term rate i cf) \<longleftrightarrow>
     (case fpow (fadd (Fin 1) rate) i of Inl e \<Rightarrow> True | Inr p \<Rightarrow> p = Fin 0)"
  by (simp add: npv_term_def fdiv_def split: sum.splits)

lemma npv_loop_float_step:
  "npv_loop_float rate i (cf # rest) a =
     (case npv_term rate i cf of
        Inl e \<Rightarrow> Inl e
      | Inr t \<Rightarrow> npv_loop_float rate (Suc i) rest (fadd a t))"
  by (simp add: npv_term_def split: sum.splits)

lemma npv_loop_float_eq:
  "npv_loop_float rate i cfs a =
     (if \<exists>k<length cfs. isl (npv_term rate (i + k) (cfs ! k)) then
        Inl (projl (npv_loop_float rate i cfs a))
      else
        Inr (foldl fadd a
               (map (\<lambda>k. projr (npv_term rate (i + k) (cfs ! k))) [0..<length cfs])))"
proof (induction cfs arbitrary: i a)
  case Nil
  then show ?case by simp
next
  case (Cons cf rest)
  have ex: "(\<exists>k<length (cf # rest). isl (npv_term rate (i + k) ((cf # rest) ! k))) \<longleftrightarrow>
      isl (npv_term rate i cf) \<or> (\<exists>k<length rest. isl (npv_term rate (Suc i + k) (rest ! k)))"
    by (auto simp: less_Suc_eq_0_disj)
  have mp: "map (\<lambda>k. projr (npv_term rate (i + k) ((cf # rest) ! k))) [0..<length (cf # rest)] =
      projr (npv_term rate i cf) #
      map (\<lambda>k. projr (npv_term rate (Suc i + k) (rest ! k))) [0..<length rest]"
  proof -
    have "[0..<length (cf # rest)] = 0 # map Suc [0..<length rest]"
      by (simp add: upt_conv_Cons map_Suc_upt del: upt_Suc)
    then show ?thesis by (simp add: comp_def del: upt_Suc)
  qed
  show ?case
  proof (cases "npv_term rate i cf")
    case (Inl e)
    then show ?thesis unfolding npv_loop_float_step ex by simp
  next
    case (Inr t)
    then show ?thesis
      unfolding npv_loop_float_step ex mp
      using Cons.IH [of "Suc i" "fadd a t"] by (simp cong: if_cong)
  qed
qed

text \<open>
  Claim C6, as amended. \<open>calculate_npv\<close> has no check of the discount rate. It fails
  exactly when evaluating some term \<open>cash_flows[i] / (1 + discount_rate) ** i\<close> raises,
  and a term raises exactly when its power raises \<open>OverflowError\<close> or is zero. For a
  finite base the power overflows when its magnitude reaches the largest double, and is
  zero, for \<open>i > 0\<close>, when the base is zero or the power underflows. In every other case
  the function returns the terms added from left to right. So the rate \<open>-1\<close> with at
  least two cash flows fails, by the zero base at index 1, and no other rate is refused as
  such, below \<open>-1\<close> or above.
\<close>

theorem calculate_npv_fails_when_a_term_raises:
  "calculate_npv_float cash_flows discount_rate =
     (if \<exists>i<length cash_flows. isl (npv_term discount_rate i (cash_flows ! i)) then
        Inl ValueError
      else
        Inr (foldl fadd (Fin 0)
               (map (\<lambda>i. projr (npv_term discount_rate i (cash_flows ! i)))
                    [0..<length cash_flows]))) \<and>
   (\<forall>i cf. isl (npv_term discount_rate i cf) \<longleftrightarrow>
      (case fpow (fadd (Fin 1) discount_rate) i of Inl e \<Rightarrow> True | Inr p \<Rightarrow> p = Fin 0)) \<and>
   (\<forall>x i. fpow (Fin x) i = Inl OverflowError \<longleftrightarrow> 0 < i \<and> float_overflow \<le> \<bar>x ^ i\<bar>) \<and>
   (\<forall>x i. fpow (Fin x) i = Inr (Fin 0) \<longleftrightarrow> 0 < i \<and> \<bar>x ^ i\<bar> \<le> float_underflow) \<and>
   (discount_rate = Fin (- 1) \<and> 2 \<le> length cash_flows \<longrightarrow>
      calculate_npv_float cash_flows discount_rate = Inl ValueError)"
proof -
  have main: "calculate_npv_float cash_flows discount_rate =
     (if \<exists>i<length cash_flows. isl (npv_term discount_rate i (cash_flows ! i)) then
        Inl ValueError
      else
        Inr (foldl fadd (Fin 0)
               (map (\<lambda>i. projr (npv_term discount_rate i (cash_flows ! i)))
                    [0..<length cash_flows])))"
    unfolding calculate_npv_float_def
    by (subst npv_loop_float_eq) (simp add: reraise_ValueError_def)
  have minus_one: "calculate_npv_float cash_flows discount_rate = Inl ValueError"
    if "discount_rate = Fin (- 1) \<and> 2 \<le> length cash_flows"
  proof -
    from that have "fadd (Fin 1) discount_rate = Fin 0"
      using float_underflow_pos float_underflow_less_overflow by (simp add: fadd_def fl_def)
    then have "fpow (fadd (Fin 1) discount_rate) 1 = Inr (Fin 0)"
      using fpow_zero_iff [of 0 1] float_underflow_pos by simp
    then have "isl (npv_term discount_rate 1 (cash_flows ! 1))"
      by (simp add: npv_term_raises)
    moreover from that have "1 < length cash_flows" by simp
    ultimately have "\<exists>i<length cash_flows. isl (npv_term discount_rate i (cash_flows ! i))"
      by blast
    with main show ?thesis by simp
  qed
  from main minus_one show ?thesis
    by (simp add: npv_term_raises fpow_overflow_iff fpow_zero_iff)
qed

lemma calculate_npv_float_breakeven:
  "calculate_npv_float [Fin (- 100), Fin 110] (Fin (1 / 10)) = Inr (Fin 0)"
  by (simp add: calculate_npv_float_def reraise_ValueError_def fpow_def fdiv_def fadd_def
      fl_def float_overflow_def float_underflow_def)

lemma calculate_npv_float_overflow:
  "calculate_npv_float [Fin 1, Fin 1, Fin 1] (Fin (10 ^ 200)) = Inl ValueError"
  by (simp add: calculate_npv_float_def reraise_ValueError_def fpow_def fdiv_def fadd_def
      fl_def float_overflow_def float_underflow_def)

theorem calculate_npv_fails_when_a_term_raises_witness:
  "calculate_npv_float [Fin (- 100), Fin 110] (Fin (1 / 10)) = Inr (Fin 0) \<and>
   \<not> (\<exists>i<length [Fin (- 100), Fin 110].
         isl (npv_term (Fin (1 / 10)) i ([Fin (- 100), Fin 110] ! i))) \<and>
   calculate_npv_float [Fin (- 100), Fin 110] (Fin (- 1)) = Inl ValueError \<and>
   calculate_npv_float [Fin 1, Fin 1, Fin 1] (Fin (10 ^ 200)) = Inl ValueError \<and>
   (\<exists>i<length [Fin 1, Fin 1, Fin 1 :: pyfloat].
         isl (npv_term (Fin (10 ^ 200)) i ([Fin 1, Fin 1, Fin 1] ! i)))"
proof -
  note a = calculate_npv_fails_when_a_term_raises [of "[Fin (- 100), Fin 110]" "Fin (1 / 10)"]
  note b = calculate_npv_fails_when_a_term_raises [of "[Fin (- 100), Fin 110]" "Fin (- 1)"]
  note c = calculate_npv_fails_when_a_term_raises [of "[Fin 1, Fin 1, Fin 1]" "Fin (10 ^ 200)"]
  from a calculate_npv_float_breakeven
  have 1: "\<not> (\<exists>i<length [Fin (- 100), Fin 110].
         isl (npv_term (Fin (1 / 10)) i ([Fin (- 100), Fin 110] ! i)))"
    by (metis sum.distinct(1))
  from b [THEN conjunct2, THEN conjunct2, THEN conjunct2, THEN conjunct2]
  have 2: "calculate_npv_float [Fin (- 100), Fin 110] (Fin (- 1)) = Inl ValueError"
    by simp
  from c calculate_npv_float_overflow
  have 3: "\<exists>i<length [Fin 1, Fin 1, Fin 1 :: pyfloat].
         isl (npv_term (Fin (10 ^ 200)) i ([Fin 1, Fin 1, Fin 1] ! i))"
    by (metis sum.distinct(1))
  from 1 2 3 calculate_npv_float_breakeven calculate_npv_float_overflow show ?thesis
    by (intro conjI) assumption+
qed

text \<open>
  Claim C6 as stated fails in both directions. The rate \<open>-2\<close> is below \<open>-1\<close>, and the
  cash flows \<open>[1, 1]\<close> have the net present value \<open>1 + 1 / (-1) = 0\<close> without an error.
  The rate \<open>1e200\<close> is above \<open>-1\<close>, and with three cash flows the power
  \<open>(1 + 1e200) ** 2\<close> overflows, which the function re-raises as \<open>ValueError\<close>.
\<close>

theorem calculate_npv_rate_counterexample:
  "(- 2 :: real) \<le> - 1 \<and>
   calculate_npv_float [Fin 1, Fin 1] (Fin (- 2)) = Inr (Fin 0) \<and>
   (- 1 :: real) < 10 ^ 200 \<and>
   calculate_npv_float [Fin 1, Fin 1, Fin 1] (Fin (10 ^ 200)) = Inl ValueError"
  by (simp add: calculate_npv_float_def reraise_ValueError_def fpow_def fdiv_def fadd_def
      fl_def float_overflow_def float_underflow_def)


subsection \<open>The clamp of calculate_irr over the kinds of a float\<close>

lemma irr_loop_float_not_below:
  "\<not> fless rate (Fin (- (99 / 100))) \<Longrightarrow>
   irr_loop_float cash_flows tolerance n rate = Inr r \<Longrightarrow>
   \<not> fless r (Fin (- (99 / 100)))"
proof (induction n arbitrary: rate)
  case 0
  then show ?case by simp
next
  case (Suc n)
  have clamp: "\<not> fless (if fless x (Fin (- (99 / 100))) then Fin (- (99 / 100)) else x)
      (Fin (- (99 / 100)))" for x
    by simp
  from Suc.prems Suc.IH [OF clamp] show ?case
    by (auto simp: Let_def split: sum.splits if_splits)
qed

lemma not_fless_cases:
  "\<not> fless r (Fin c) \<longleftrightarrow> r = NaN \<or> r = PInf \<or> (\<exists>x. r = Fin x \<and> c \<le> x)"
  by (cases r) auto

lemma fless_eq_cases:
  "fless_eq (Fin c) r \<longleftrightarrow> r = PInf \<or> (\<exists>x. r = Fin x \<and> c \<le> x)"
  by (cases r) auto

text \<open>
  Claim C9, as amended. For every cash-flow list on which \<open>calculate_irr\<close> returns a
  value, the list has at least 2 entries and the returned rate is never below \<open>-0.99\<close>:
  the initial guess is \<open>0.10\<close> and every Newton-Raphson update that compares below
  \<open>-0.99\<close> is replaced by \<open>-0.99\<close>. So the returned rate is never minus infinity and never
  a number \<open>\<le> -1\<close>, and it is \<open>\<ge> -0.99\<close> whenever it is not NaN. It can be NaN: the
  comparison \<open>rate < -0.99\<close> is false for NaN, which passes the clamp.
\<close>

theorem calculate_irr_never_below_clamp:
  "calculate_irr_float cash_flows max_iterations tolerance = Inr r \<Longrightarrow>
   2 \<le> length cash_flows \<and>
   \<not> fless r (Fin (- (99 / 100))) \<and>
   r \<noteq> NInf \<and>
   (\<forall>x. r = Fin x \<longrightarrow> - (99 / 100) \<le> x \<and> - 1 < x) \<and>
   (r \<noteq> NaN \<longrightarrow> fless_eq (Fin (- (99 / 100))) r)"
proof -
  assume ret: "calculate_irr_float cash_flows max_iterations tolerance = Inr r"
  then have len: "2 \<le> length cash_flows"
    by (simp add: calculate_irr_float_def reraise_ValueError_def split: if_splits)
  with ret have "irr_loop_float cash_flows tolerance (nat max_iterations) (Fin (1 / 10)) = Inr r"
    by (simp add: calculate_irr_float_def reraise_ValueError_def split: sum.splits)
  moreover have "\<not> fless (Fin (1 / 10)) (Fin (- (99 / 100)))" by simp
  ultimately have "\<not> fless r (Fin (- (99 / 100)))"
    by (rule irr_loop_float_not_below [rotated])
  with len show ?thesis
    unfolding not_fless_cases fless_eq_cases by auto
qed

lemma irr_float_clamped_step:
  "calculate_irr_float [Fin 100, Fin (- 30)] 1 (Fin (1 / 10 ^ 6)) = Inr (Fin (- (99 / 100)))"
  by (simp add: calculate_irr_float_def reraise_ValueError_def irr_npv_float_def
      irr_dnpv_float_def npv_term_def dnpv_term_def fpow_def fdiv_def fadd_def fsub_def
      fmul_def fl_def float_overflow_def float_underflow_def Let_def)

lemma irr_float_two_steps:
  "calculate_irr_float [Fin (- 100), Fin 120] 2 (Fin (1 / 10 ^ 6)) = Inr (Fin (691 / 3456))"
  by (simp add: calculate_irr_float_def reraise_ValueError_def irr_npv_float_def
      irr_dnpv_float_def npv_term_def dnpv_term_def fpow_def fdiv_def fadd_def fsub_def
      fmul_def fl_def float_overflow_def float_underflow_def Let_def numeral_2_eq_2)

theorem calculate_irr_never_below_clamp_witness:
  "calculate_irr_float [Fin 100, Fin (- 30)] 1 (Fin (1 / 10 ^ 6)) = Inr (Fin (- (99 / 100))) \<and>
   fless_eq (Fin (- (99 / 100))) (Fin (- (99 / 100))) \<and>
   calculate_irr_float [Fin (- 100), Fin 120] 2 (Fin (1 / 10 ^ 6)) = Inr (Fin (691 / 3456)) \<and>
   fless_eq (Fin (- (99 / 100))) (Fin (691 / 3456)) \<and>
   \<not> fless (Fin (691 / 3456)) (Fin (- (99 / 100)))"
  using
    calculate_irr_never_below_clamp [of "[Fin 100, Fin (- 30)]" 1 "Fin (1 / 10 ^ 6)"
      "Fin (- (99 / 100))"]
    calculate_irr_never_below_clamp [of "[Fin (- 100), Fin 120]" 2 "Fin (1 / 10 ^ 6)"
      "Fin (691 / 3456)"]
    irr_float_clamped_step irr_float_two_steps
  by simp

lemma irr_loop_float_first_step:
  "irr_loop_float [Fin (10 ^ 308), Fin (10 ^ 308), Fin (10 ^ 308)] (Fin (1 / 10 ^ 6)) (Suc n)
     (Fin (1 / 10)) =
   irr_loop_float [Fin (10 ^ 308), Fin (10 ^ 308), Fin (10 ^ 308)] (Fin (1 / 10 ^ 6)) n NaN"
  by (simp add: irr_npv_float_def irr_dnpv_float_def npv_term_def dnpv_term_def fpow_def
      fdiv_def fadd_def fsub_def fmul_def fl_def float_overflow_def float_underflow_def
      signed_inf_def Let_def)

lemma irr_loop_float_stays_nan:
  "irr_loop_float [Fin (10 ^ 308), Fin (10 ^ 308), Fin (10 ^ 308)] (Fin (1 / 10 ^ 6)) n NaN =
   Inr NaN"
  by (induction n)
    (simp_all add: irr_npv_float_def irr_dnpv_float_def npv_term_def dnpv_term_def fpow_def
      fdiv_def fadd_def fsub_def fmul_def fl_def float_overflow_def float_underflow_def
      signed_inf_def Let_def)

theorem calculate_irr_nan_counterexample:
  "2 \<le> length [Fin (10 ^ 308), Fin (10 ^ 308), Fin (10 ^ 308)] \<and>
   calculate_irr_float [Fin (10 ^ 308), Fin (10 ^ 308), Fin (10 ^ 308)] 1000
     (Fin (1 / 10 ^ 6)) = Inr NaN \<and>
   \<not> fless_eq (Fin (- (99 / 100))) NaN"
proof -
  have "nat 1000 = Suc 999" by simp
  then have "irr_loop_float [Fin (10 ^ 308), Fin (10 ^ 308), Fin (10 ^ 308)]
      (Fin (1 / 10 ^ 6)) (nat 1000) (Fin (1 / 10)) = Inr NaN"
    by (simp only: irr_loop_float_first_step irr_loop_float_stays_nan)
  then show ?thesis
    by (simp add: calculate_irr_float_def reraise_ValueError_def)
qed
subsection \<open>Payback period\<close>

lemma payback_loop_crossing:
  fixes rest :: "real list"
  shows "j < length rest \<Longrightarrow>
   (\<forall>m<j. cum + sum_list (take (Suc m) rest) < investment) \<Longrightarrow>
   investment \<le> cum + sum_list (take (Suc j) rest) \<Longrightarrow>
   payback_loop investment flows y rest cum =
     (case py_div (cum + sum_list (take (Suc j) rest) - investment) (rest ! j) of
        Inl e \<Rightarrow> Inl e
      | Inr f \<Rightarrow> Inr (real (y + j) + 1 - f))"
proof (induction rest arbitrary: j y cum)
  case Nil
  then show ?case by simp
next
  case (Cons c rest)
  show ?case
  proof (cases j)
    case 0
    with Cons.prems show ?thesis by (auto simp: Let_def split: sum.splits)
  next
    case (Suc j')
    from Cons.prems(2) Suc have low: "cum + c < investment"
      by (auto dest: spec [of _ 0])
    have a: "j' < length rest" using Cons.prems(1) Suc by simp
    have b: "\<forall>m<j'. (cum + c) + sum_list (take (Suc m) rest) < investment"
    proof (intro allI impI)
      fix m assume "m < j'"
      then have "Suc m < j" using Suc by simp
      with Cons.prems(2)
      have "cum + sum_list (take (Suc (Suc m)) (c # rest)) < investment" by blast
      then show "(cum + c) + sum_list (take (Suc m) rest) < investment"
        by (simp add: add.assoc)
    qed
    have c: "investment \<le> (cum + c) + sum_list (take (Suc j') rest)"
      using Cons.prems(3) Suc by (simp add: add.assoc)
    from Cons.IH [OF a b c, of "Suc y"] low Suc show ?thesis
      by (auto simp: Let_def add.assoc split: sum.splits)
  qed
qed

lemma crossing_flow_zero:
  fixes flows :: "real list"
  assumes k: "1 \<le> k" "k \<le> length flows"
    and ge: "investment \<le> sum_list (take k flows)"
    and lt: "\<forall>j. 1 \<le> j \<and> j < k \<longrightarrow> sum_list (take j flows) < investment"
    and z: "flows ! (k - 1) = 0"
  shows "k = 1 \<and> investment \<le> 0"
proof -
  obtain k' where k': "k = Suc k'" using k(1) by (cases k) auto
  have "take k flows = take k' flows @ [flows ! k']"
    using k(2) k' by (simp add: take_Suc_conv_app_nth)
  with z k' have eq: "sum_list (take k flows) = sum_list (take k' flows)" by simp
  show ?thesis
  proof (cases k')
    case 0
    with k' eq ge show ?thesis by simp
  next
    case (Suc n)
    with lt k' have "sum_list (take k' flows) < investment" by simp
    with eq ge have False by linarith
    then show ?thesis ..
  qed
qed

lemma payback_examples:
  "calculate_payback_period 100 [40, 80] = Inr (7 / 4)"
  "calculate_payback_period 100 [50, 50, 50] = Inr 2"
  by (simp_all add: calculate_payback_period_def reraise_ValueError_def py_div_def Let_def)

text \<open>
  Claim C4, as amended. Let the running sum of the flows first reach the investment in
  year \<open>k\<close> (counted from 1), with that year's flow \<open>f\<close>. When \<open>f\<close> is not zero,
  \<open>calculate_payback_period\<close> returns \<open>k - (cumulative - investment) / f\<close>; when
  \<open>f\<close> is zero, which can only be in year 1 with an investment that is not positive,
  the division raises and the function fails. Investment 100 with flows \<open>[40, 80]\<close>
  gives 1.75, and with \<open>[50, 50, 50]\<close> exactly 2.
\<close>

theorem payback_interpolation:
  fixes annual_cash_flows :: "real list"
  assumes "1 \<le> k" and "k \<le> length annual_cash_flows"
    and "initial_investment \<le> sum_list (take k annual_cash_flows)"
    and "\<forall>j. 1 \<le> j \<and> j < k \<longrightarrow> sum_list (take j annual_cash_flows) < initial_investment"
  shows "calculate_payback_period initial_investment annual_cash_flows =
           (if annual_cash_flows ! (k - 1) = 0 then Inl ValueError
            else Inr (real k - (sum_list (take k annual_cash_flows) - initial_investment)
                                / annual_cash_flows ! (k - 1))) \<and>
         (annual_cash_flows ! (k - 1) = 0 \<longrightarrow> k = 1 \<and> initial_investment \<le> 0) \<and>
         calculate_payback_period 100 [40, 80] = Inr (7 / 4) \<and>
         calculate_payback_period 100 [50, 50, 50] = Inr 2"
proof -
  obtain j where j: "k = Suc j" using assms(1) by (cases k) auto
  have a: "j < length annual_cash_flows" using assms(2) j by simp
  have b: "\<forall>m<j. 0 + sum_list (take (Suc m) annual_cash_flows) < initial_investment"
    using assms(4) j by simp
  have c: "initial_investment \<le> 0 + sum_list (take (Suc j) annual_cash_flows)"
    using assms(3) j by simp
  have "calculate_payback_period initial_investment annual_cash_flows =
           (if annual_cash_flows ! (k - 1) = 0 then Inl ValueError
            else Inr (real k - (sum_list (take k annual_cash_flows) - initial_investment)
                                / annual_cash_flows ! (k - 1)))"
    using payback_loop_crossing [OF a b c, of annual_cash_flows 0] j
    by (simp add: calculate_payback_period_def reraise_ValueError_def py_div_def)
  moreover have "annual_cash_flows ! (k - 1) = 0 \<longrightarrow> k = 1 \<and> initial_investment \<le> 0"
    using crossing_flow_zero [OF assms] by blast
  ultimately show ?thesis using payback_examples by blast
qed

theorem payback_interpolation_witness:
  "calculate_payback_period 100 [40, 80] = Inr (2 - (120 - 100) / 80)"
proof -
  have h: "\<forall>j. 1 \<le> j \<and> j < 2 \<longrightarrow> sum_list (take j [40, 80 :: real]) < 100"
  proof (intro allI impI)
    fix j :: nat
    assume "1 \<le> j \<and> j < 2"
    then have "j = 1" by simp
    then show "sum_list (take j [40, 80 :: real]) < 100" by simp
  qed
  show ?thesis
    using payback_interpolation [of 2 "[40, 80]" 100, OF _ _ _ h] by simp
qed

text \<open>
  Claim C4 as stated fails for an investment that is not positive: with investment 0 and
  the single flow 0 the running sum reaches the investment in year 1, the claimed value
  would divide by that year's flow, and the function fails instead of returning.
\<close>

theorem payback_zero_flow_counterexample:
  "(0 :: real) \<le> sum_list (take 1 [0]) \<and> calculate_payback_period 0 [0] = Inl ValueError"
  by (simp add: calculate_payback_period_def reraise_ValueError_def py_div_def Let_def)

section \<open>Properties of analyze_profitability\<close>

subsection \<open>The cash-flow series\<close>

lemma build_cash_flows_defined:
  "1 \<le> n \<Longrightarrow> build_cash_flows cap rvn cost n tax salv =
     Inr (- cap # map (year_cash_flow rvn cost ((cap - salv) / of_int n) tax salv n) [1..n])"
  by (simp add: build_cash_flows_def py_div_def)

lemma build_cash_flows_breakeven: "build_cash_flows 100 110 0 1 0 0 = Inr [- 100, 110]"
  by (simp add: build_cash_flows_def py_div_def year_cash_flow_def Let_def upto.simps)

text \<open>
  Claim C2. For a lifetime of at least one year the series that \<open>analyze_profitability\<close>
  builds, and from which \<open>profitability_metrics\<close> computes every metric, has
  \<open>project_lifetime + 1\<close> entries; entry 0 is the negated investment; every year before
  the last has the after-tax income plus the depreciation, with the tax never below zero;
  the last year has the salvage value on top.
\<close>

theorem cash_flow_series_shape:
  assumes "1 \<le> project_lifetime"
  shows "\<exists>cash_flows.
           build_cash_flows capital_investment annual_revenue annual_operating_costs
             project_lifetime tax_rate salvage_value = Inr cash_flows \<and>
           (let annual_depreciation =
                  (capital_investment - salvage_value) / of_int project_lifetime;
                taxable_income =
                  (annual_revenue - annual_operating_costs) - annual_depreciation;
                flow = (taxable_income - max 0 (taxable_income * tax_rate))
                         + annual_depreciation
            in length cash_flows = nat project_lifetime + 1 \<and>
               cash_flows ! 0 = - capital_investment \<and>
               (\<forall>year. 1 \<le> year \<and> year < project_lifetime \<longrightarrow>
                    cash_flows ! nat year = flow) \<and>
               cash_flows ! nat project_lifetime = flow + salvage_value)"
proof -
  let ?dep = "(capital_investment - salvage_value) / of_int project_lifetime"
  let ?f = "year_cash_flow annual_revenue annual_operating_costs ?dep tax_rate salvage_value
              project_lifetime"
  let ?cfs = "- capital_investment # map ?f [1..project_lifetime]"
  have nth: "?cfs ! nat year = ?f year" if "1 \<le> year" "year \<le> project_lifetime" for year
  proof -
    from that obtain m where m: "nat year = Suc m" by (cases "nat year") auto
    with that have y: "year = 1 + int m" by linarith
    with that have "[1..project_lifetime] ! m = 1 + int m" by (simp add: nth_upto)
    moreover from that y have "m < length [1..project_lifetime]" by simp
    ultimately show ?thesis using m y by simp
  qed
  have len: "length ?cfs = nat project_lifetime + 1" using assms by simp
  let ?flow = "((annual_revenue - annual_operating_costs - ?dep)
         - max 0 ((annual_revenue - annual_operating_costs - ?dep) * tax_rate)) + ?dep"
  have mid: "\<forall>year. 1 \<le> year \<and> year < project_lifetime \<longrightarrow> ?cfs ! nat year = ?flow"
  proof (intro allI impI)
    fix year
    assume h: "1 \<le> year \<and> year < project_lifetime"
    with nth [of year] have e: "?cfs ! nat year = ?f year" by simp
    from h have v: "?f year = ?flow" by (simp add: year_cash_flow_def Let_def)
    show "?cfs ! nat year = ?flow" by (simp only: e v)
  qed
  have fin: "?cfs ! nat project_lifetime = ?flow + salvage_value"
  proof -
    from nth [of project_lifetime] assms
    have e: "?cfs ! nat project_lifetime = ?f project_lifetime" by simp
    have v: "?f project_lifetime = ?flow + salvage_value"
      by (simp add: year_cash_flow_def Let_def)
    show ?thesis by (simp only: e v)
  qed
  have "?cfs ! 0 = - capital_investment" by simp
  with len mid fin build_cash_flows_defined [OF assms] show ?thesis
    unfolding Let_def by (intro exI [of _ ?cfs] conjI) auto
qed

theorem cash_flow_series_shape_witness:
  "\<exists>cash_flows. build_cash_flows 100 110 0 1 0 0 = Inr cash_flows \<and>
     length cash_flows = 2 \<and> cash_flows ! 0 = - 100 \<and> cash_flows ! 1 = 110"
  using cash_flow_series_shape [of 1 100 110 0 0 0] by (auto simp: Let_def)

subsection \<open>The result dictionary\<close>

lemma store_results_Inr:
  "store_results m s = (Inr a, s') \<Longrightarrow>
     \<exists>d. m = Inr d \<and> a = length (store s) \<and>
         s' = s\<lparr> store := store s @ [Result_dict d], self_results := length (store s) \<rparr>"
  by (auto simp: store_results_def split: sum.splits)

lemma read_results_stored:
  "read_results (s\<lparr> store := store s @ [Result_dict d], self_results := r \<rparr>)
     (length (store s)) = Inr d"
  by (simp add: read_results_def)

lemma profitability_metrics_Inr:
  assumes "profitability_metrics cap rvn cost n dr tax salv = Inr d"
  shows "\<exists>cash_flows r. build_cash_flows cap rvn cost n tax salv = Inr cash_flows \<and>
           calculate_irr cash_flows 1000 (1 / 1000000) = Inr r \<and> irr d = r * 100"
  using assms
  by (auto simp: profitability_metrics_def reraise_ValueError_def split: sum.splits)

lemma profitability_metrics_breakeven:
  "profitability_metrics 100 110 0 1 (1 / 10) 0 0 =
     Inr \<lparr> npv = 0, irr = 10, payback_period = 10 / 11, roi = 110, profitability_index = 1,
           annual_cash_flow = 110, total_revenue = 110, total_costs = 0,
           break_even_price = 0 \<rparr>"
  by (simp add: profitability_metrics_def build_cash_flows_breakeven calculate_irr_breakeven
      calculate_npv_def calculate_payback_period_def calculate_roi_def break_even_def
      reraise_ValueError_def py_div_def Let_def)

lemma analyze_profitability_breakeven:
  "analyze_profitability 100 110 0 1 (1 / 10) 0 0 new_analyzer =
     (Inr 1,
      \<lparr> store = [Empty_dict,
                 Result_dict \<lparr> npv = 0, irr = 10, payback_period = 10 / 11, roi = 110,
                   profitability_index = 1, annual_cash_flow = 110, total_revenue = 110,
                   total_costs = 0, break_even_price = 0 \<rparr>],
        self_results = 1 \<rparr>)"
  by (simp add: analyze_profitability_def profitability_metrics_breakeven store_results_def
      new_analyzer_def init_analyzer_def)

text \<open>
  Claim C1, as amended. After a successful call the \<open>irr\<close> entry of the returned
  dictionary is one hundred times the rate that \<open>calculate_irr\<close> returns for the full
  cash-flow series: a percentage, as the source's comment says, not the fraction.
\<close>

theorem analyze_profitability_irr_is_percentage:
  assumes "analyze_profitability capital_investment annual_revenue annual_operating_costs
             project_lifetime discount_rate tax_rate salvage_value s = (Inr a, s')"
  shows "\<exists>cash_flows r d.
           build_cash_flows capital_investment annual_revenue annual_operating_costs
             project_lifetime tax_rate salvage_value = Inr cash_flows \<and>
           calculate_irr cash_flows 1000 (1 / 1000000) = Inr r \<and>
           read_results s' a = Inr d \<and>
           irr d = r * 100"
proof -
  from store_results_Inr [OF assms [unfolded analyze_profitability_def]]
  obtain d where d: "profitability_metrics capital_investment annual_revenue
        annual_operating_costs project_lifetime discount_rate tax_rate salvage_value = Inr d"
    and a: "a = length (store s)"
    and s': "s' = s\<lparr> store := store s @ [Result_dict d], self_results := length (store s) \<rparr>"
    by blast
  from a s' have "read_results s' a = Inr d" by (simp add: read_results_stored)
  with profitability_metrics_Inr [OF d] show ?thesis by blast
qed

theorem analyze_profitability_irr_is_percentage_witness:
  "\<exists>cash_flows r d.
     build_cash_flows 100 110 0 1 0 0 = Inr cash_flows \<and>
     calculate_irr cash_flows 1000 (1 / 1000000) = Inr r \<and>
     read_results (snd (analyze_profitability 100 110 0 1 (1 / 10) 0 0 new_analyzer)) 1
       = Inr d \<and>
     irr d = r * 100"
  using analyze_profitability_irr_is_percentage [OF analyze_profitability_breakeven]
  by (simp add: analyze_profitability_breakeven)

text \<open>
  Claim C1 as stated fails: for an investment of 100 repaid by 110 after one year the
  solver returns the fraction \<open>0.1\<close>, and the returned dictionary holds \<open>10\<close>.
\<close>

theorem irr_field_not_fraction_counterexample:
  "build_cash_flows 100 110 0 1 0 0 = Inr [- 100, 110] \<and>
   calculate_irr [- 100, 110] 1000 (1 / 1000000) = Inr (1 / 10) \<and>
   fst (analyze_profitability 100 110 0 1 (1 / 10) 0 0 new_analyzer) = Inr 1 \<and>
   map_sum id irr
     (read_results (snd (analyze_profitability 100 110 0 1 (1 / 10) 0 0 new_analyzer)) 1)
     = Inr 10 \<and>
   (10 :: real) \<noteq> 1 / 10"
  by (simp add: build_cash_flows_breakeven calculate_irr_breakeven
      analyze_profitability_breakeven read_results_def)

subsection \<open>Investments that are not positive\<close>

lemma profitability_metrics_zero_investment:
  "profitability_metrics 0 rvn cost n dr tax salv = Inl ValueError"
  by (simp add: profitability_metrics_def calculate_roi_def reraise_ValueError_def
      split: sum.splits)

lemma irr_loop_negative_investment:
  "irr_loop [100, - 110] (1 / 1000000) 1000 (1 / 10) = Inr (Converged, 1 / 10)"
proof -
  have "irr_loop [100, - 110] (1 / 1000000) (Suc n) (1 / 10) = Inr (Converged, 1 / 10)" for n
    by (simp add: irr_npv_def irr_dnpv_def py_div_def)
  from this [of 999] show ?thesis by simp
qed

lemma profitability_metrics_negative_investment:
  "profitability_metrics (- 100) 0 110 1 (1 / 10) 0 0 =
     Inr \<lparr> npv = 0, irr = 10, payback_period = 10 / 11, roi = 110, profitability_index = 1,
           annual_cash_flow = - 110, total_revenue = 0, total_costs = 110,
           break_even_price = 0 \<rparr>"
proof -
  have b: "build_cash_flows (- 100) 0 110 1 0 0 = Inr [100, - 110]"
    by (simp add: build_cash_flows_def py_div_def year_cash_flow_def Let_def upto.simps)
  have i: "calculate_irr [100, - 110] 1000 (1 / 1000000) = Inr (1 / 10)"
    by (simp add: calculate_irr_def irr_solve_def reraise_ValueError_def
        irr_loop_negative_investment)
  show ?thesis
    by (simp add: profitability_metrics_def b i calculate_npv_def
        calculate_payback_period_def calculate_roi_def break_even_def
        reraise_ValueError_def py_div_def Let_def)
qed

text \<open>
  Claim C5, as amended. With a capital investment of exactly zero
  \<open>analyze_profitability\<close> fails with \<open>ValueError\<close> whatever the other arguments are,
  and the analyzer is left as it was: if no earlier step raises, \<open>calculate_roi\<close>
  refuses the zero investment. The sign of the investment is checked nowhere.
\<close>

theorem analyze_profitability_rejects_zero_investment:
  "analyze_profitability 0 annual_revenue annual_operating_costs project_lifetime
     discount_rate tax_rate salvage_value s = (Inl ValueError, s)"
  by (simp add: analyze_profitability_def profitability_metrics_zero_investment
      store_results_def)

theorem analyze_profitability_rejects_zero_investment_witness:
  "analyze_profitability 0 110 0 1 (1 / 10) 0 0 new_analyzer = (Inl ValueError, new_analyzer)"
  by (rule analyze_profitability_rejects_zero_investment)

text \<open>
  Claim C5 as stated fails for a negative investment: with an investment of \<open>-100\<close>,
  operating costs of 110 and one year, the call returns a reference to a full result
  dictionary.
\<close>

theorem negative_investment_accepted_counterexample:
  "(- 100 :: real) \<le> 0 \<and>
   fst (analyze_profitability (- 100) 0 110 1 (1 / 10) 0 0 new_analyzer) = Inr 1 \<and>
   read_results (snd (analyze_profitability (- 100) 0 110 1 (1 / 10) 0 0 new_analyzer)) 1 =
     Inr \<lparr> npv = 0, irr = 10, payback_period = 10 / 11, roi = 110, profitability_index = 1,
           annual_cash_flow = - 110, total_revenue = 0, total_costs = 110,
           break_even_price = 0 \<rparr>"
  by (simp add: analyze_profitability_def profitability_metrics_negative_investment
      store_results_def new_analyzer_def init_analyzer_def read_results_def)

section \<open>Properties of the drivers\<close>

subsection \<open>Calls through the store\<close>

lemma analyze_profitability_kw_fst:
  "fst (analyze_profitability_kw kw s) =
     (case profitability_metrics_kw kw of Inl e \<Rightarrow> Inl e | Inr d \<Rightarrow> Inr (length (store s)))"
  by (simp add: analyze_profitability_kw_def store_results_def split: sum.splits)

lemma analyze_profitability_kw_Inl:
  "analyze_profitability_kw kw s = (Inl e, s') \<Longrightarrow>
     profitability_metrics_kw kw = Inl e \<and> s' = s"
  by (auto simp: analyze_profitability_kw_def store_results_def split: sum.splits)

lemma analyze_profitability_kw_Inr:
  "analyze_profitability_kw kw s = (Inr a, s') \<Longrightarrow>
     \<exists>d. profitability_metrics_kw kw = Inr d \<and> a = length (store s) \<and>
         store s' = store s @ [Result_dict d] \<and> read_results s' a = Inr d"
  by (auto simp: analyze_profitability_kw_def store_results_def read_results_def
      split: sum.splits)

lemma store_results_prefix: "prefix (store s) (store (snd (store_results m s)))"
  by (simp add: store_results_def split: sum.splits)

lemma until_error_append:
  "until_error (xs @ ys) =
     (case until_error xs of
        Inl e \<Rightarrow> Inl e
      | Inr a \<Rightarrow> (case until_error ys of Inl e \<Rightarrow> Inl e | Inr b \<Rightarrow> Inr (a @ b)))"
  by (induction xs rule: until_error.induct) (auto split: sum.splits)

lemma until_error_Inr: "until_error rs = Inr xs \<Longrightarrow> rs = map Inr xs"
  by (induction rs arbitrary: xs rule: until_error.induct) (auto split: sum.splits)

lemma until_error_map_Inr: "until_error (map Inr xs) = Inr xs"
  by (induction xs) auto

subsection \<open>sensitivity_analysis\<close>

lemma sensitivity_changes_fst:
  "fst (sensitivity_changes base p bv cs rows s) =
     (case until_error (map (perturbed_row base p bv) cs) of
        Inl e \<Rightarrow> Inl e
      | Inr new \<Rightarrow> Inr (rows @ new))"
proof (induction cs arbitrary: rows s)
  case Nil
  then show ?case by simp
next
  case (Cons c cs)
  let ?kw = "AList.update p (PFloat (num bv * (1 + c / 100))) base"
  obtain r s' where call: "analyze_profitability_kw ?kw s = (r, s')"
    by (cases "analyze_profitability_kw ?kw s")
  show ?case
  proof (cases r)
    case (Inl e)
    with call analyze_profitability_kw_Inl [of ?kw s e s'] show ?thesis
      by (simp add: perturbed_row_def perturbed_def)
  next
    case (Inr a)
    with call analyze_profitability_kw_Inr [of ?kw s a s'] obtain d
      where d: "profitability_metrics_kw ?kw = Inr d" "read_results s' a = Inr d"
      by blast
    with call Inr Cons.IH show ?thesis
      by (simp add: perturbed_row_def perturbed_def split: sum.splits)
  qed
qed

lemma sensitivity_changes_prefix:
  "prefix (store s) (store (snd (sensitivity_changes base p bv cs rows s)))"
proof (induction cs arbitrary: rows s)
  case Nil
  then show ?case by simp
next
  case (Cons c cs)
  let ?kw = "AList.update p (PFloat (num bv * (1 + c / 100))) base"
  obtain r s' where call: "analyze_profitability_kw ?kw s = (r, s')"
    by (cases "analyze_profitability_kw ?kw s")
  have step: "prefix (store s) (store s')"
    using store_results_prefix [of s "profitability_metrics_kw ?kw"] call
    by (simp add: analyze_profitability_kw_def)
  show ?case
  proof (cases r)
    case (Inl e)
    with call step show ?thesis by simp
  next
    case (Inr a)
    show ?thesis
    proof (cases "read_results s' a")
      case (Inl e)
      with call Inr step show ?thesis by simp
    next
      case (Inr d)
      from Cons.IH [of s'] step
      have "prefix (store s) (store (snd (sensitivity_changes base p bv cs
              (rows @ [\<lparr> row_parameter = p, row_change_percent = c, row_npv = npv d,
                          row_irr = irr d, row_payback_period = payback_period d \<rparr>]) s')))"
        using prefix_order.order_trans by blast
      with call \<open>r = Inr a\<close> Inr show ?thesis by simp
    qed
  qed
qed

lemma sensitivity_params_fst:
  "fst (sensitivity_params base ranges rows s) =
     (case until_error (perturbed_rows base ranges) of
        Inl e \<Rightarrow> Inl e
      | Inr new \<Rightarrow> Inr (rows @ new))"
proof (induction ranges arbitrary: rows s)
  case Nil
  then show ?case by (simp add: perturbed_rows_def)
next
  case (Cons pc ranges)
  obtain p cs where pc: "pc = (p, cs)" by (cases pc)
  show ?case
  proof (cases "map_of base p")
    case None
    with Cons.IH pc show ?thesis by (simp add: perturbed_rows_def)
  next
    case (Some bv)
    obtain r s' where inner: "sensitivity_changes base p bv cs rows s = (r, s')"
      by (cases "sensitivity_changes base p bv cs rows s")
    have r: "r = (case until_error (map (perturbed_row base p bv) cs) of
                    Inl e \<Rightarrow> Inl e | Inr new \<Rightarrow> Inr (rows @ new))"
      using sensitivity_changes_fst [of base p bv cs rows s] inner by simp
    have unfold: "perturbed_rows base ((p, cs) # ranges) =
        map (perturbed_row base p bv) cs @ perturbed_rows base ranges"
      using Some by (simp add: perturbed_rows_def)
    show ?thesis
      using inner r Some pc Cons.IH
      by (simp add: unfold until_error_append split: sum.splits)
  qed
qed

lemma sensitivity_params_prefix:
  "prefix (store s) (store (snd (sensitivity_params base ranges rows s)))"
proof (induction ranges arbitrary: rows s)
  case Nil
  then show ?case by simp
next
  case (Cons pc ranges)
  obtain p cs where pc: "pc = (p, cs)" by (cases pc)
  show ?case
  proof (cases "map_of base p")
    case None
    with Cons.IH pc show ?thesis by simp
  next
    case (Some bv)
    obtain r s' where inner: "sensitivity_changes base p bv cs rows s = (r, s')"
      by (cases "sensitivity_changes base p bv cs rows s")
    have step: "prefix (store s) (store s')"
      using sensitivity_changes_prefix [of s base p bv cs rows] inner by simp
    show ?thesis
    proof (cases r)
      case (Inl e)
      with inner step Some pc show ?thesis by simp
    next
      case (Inr rows')
      from Cons.IH [of s' rows'] step
      have "prefix (store s) (store (snd (sensitivity_params base ranges rows' s')))"
        using prefix_order.order_trans by blast
      with inner Inr Some pc show ?thesis by simp
    qed
  qed
qed

lemma sensitivity_analysis_fst:
  "fst (sensitivity_analysis base ranges s) = until_error (perturbed_rows base ranges)"
  by (simp add: sensitivity_analysis_def sensitivity_params_fst split: sum.splits)

lemma perturbed_row_Inr:
  "perturbed_row base p bv c = Inr r \<Longrightarrow>
     row_parameter r = p \<and> row_change_percent r = c \<and>
     (\<exists>d. profitability_metrics_kw (perturbed base p bv c) = Inr d \<and>
          row_npv r = npv d \<and> row_irr r = irr d \<and> row_payback_period r = payback_period d)"
  by (auto simp: perturbed_row_def split: sum.splits)

lemma perturbed_row_keys:
  "map (perturbed_row base p bv) cs = map Inr rows \<Longrightarrow>
     map (\<lambda>r. (row_parameter r, row_change_percent r)) rows = map (Pair p) cs"
proof (induction cs arbitrary: rows)
  case Nil
  then show ?case by simp
next
  case (Cons c cs)
  then obtain r rest where rows: "rows = r # rest" by (cases rows) auto
  with Cons.prems have "perturbed_row base p bv c = Inr r"
    and "map (perturbed_row base p bv) cs = map Inr rest" by simp_all
  with Cons.IH [of rest] perturbed_row_Inr [of base p bv c r] rows show ?case by simp
qed

lemma perturbed_rows_keys:
  "perturbed_rows base ranges = map Inr rows \<Longrightarrow>
     map (\<lambda>r. (row_parameter r, row_change_percent r)) rows =
       concat (map (\<lambda>(p, cs). case map_of base p of
                                 None \<Rightarrow> []
                               | Some bv \<Rightarrow> map (Pair p) cs) ranges)"
proof (induction ranges arbitrary: rows)
  case Nil
  then show ?case by (simp add: perturbed_rows_def)
next
  case (Cons pc ranges)
  obtain p cs where pc: "pc = (p, cs)" by (cases pc)
  show ?case
  proof (cases "map_of base p")
    case None
    with Cons pc show ?thesis by (simp add: perturbed_rows_def)
  next
    case (Some bv)
    with Cons.prems pc
    have "map Inr rows = map (perturbed_row base p bv) cs @ perturbed_rows base ranges"
      by (simp add: perturbed_rows_def)
    then obtain r1 r2 where split: "rows = r1 @ r2"
      and r1: "map (perturbed_row base p bv) cs = map Inr r1"
      and r2: "perturbed_rows base ranges = map Inr r2"
      by (auto simp: map_eq_append_conv)
    from perturbed_row_keys [OF r1] Cons.IH [OF r2] split Some pc show ?thesis by simp
  qed
qed

lemma perturbed_rows_member:
  "Inr r \<in> set (perturbed_rows base ranges) \<Longrightarrow>
     \<exists>p cs bv c. (p, cs) \<in> set ranges \<and> map_of base p = Some bv \<and> c \<in> set cs \<and>
                 perturbed_row base p bv c = Inr r"
proof (induction ranges)
  case Nil
  then show ?case by (simp add: perturbed_rows_def)
next
  case (Cons pc ranges)
  obtain p cs where pc: "pc = (p, cs)" by (cases pc)
  have unfold: "perturbed_rows base ((p, cs) # ranges) =
      (case map_of base p of None \<Rightarrow> [] | Some bv \<Rightarrow> map (perturbed_row base p bv) cs)
        @ perturbed_rows base ranges"
    by (simp add: perturbed_rows_def)
  from Cons.prems pc unfold
  consider (here) bv where "map_of base p = Some bv"
      "Inr r \<in> set (map (perturbed_row base p bv) cs)"
    | (later) "Inr r \<in> set (perturbed_rows base ranges)"
    by (auto split: option.splits)
  then show ?case
  proof cases
    case here
    then obtain c where "c \<in> set cs" "perturbed_row base p bv c = Inr r" by auto
    with here(1) pc show ?thesis by auto
  next
    case later
    from Cons.IH [OF this] show ?thesis by auto
  qed
qed

lemma map_of_perturbed:
  "map_of (perturbed base p bv c) name =
     (if name = p then Some (PFloat (num bv * (1 + c / 100))) else map_of base name)"
  by (simp add: perturbed_def update_conv')

lemma metrics_unperturbed:
  assumes bv: "map_of base p = Some bv"
    and d: "profitability_metrics_kw (perturbed base p bv 0) = Inr d"
  shows "profitability_metrics_kw base = Inr d"
proof -
  let ?kw = "perturbed base p bv 0"
  from bv have "p \<in> set (map fst base)" by (metis map_of_eq_None_iff option.distinct(1) set_map)
  then have keys: "map fst ?kw = map fst base" by (simp add: perturbed_def update_keys)
  have mo: "map_of ?kw name = (if name = p then Some (PFloat (num bv)) else map_of base name)"
    for name by (simp add: map_of_perturbed)
  have none: "(map_of ?kw name = None) = (map_of base name = None)" for name
    using bv by (simp add: mo)
  have arg: "kwarg ?kw name dflt = kwarg base name dflt" for name dflt
    using bv by (simp add: kwarg_def mo)
  have other: "p \<noteq> ''project_lifetime''"
  proof
    assume "p = ''project_lifetime''"
    with mo [of "''project_lifetime''"]
    have "map_of ?kw ''project_lifetime'' = Some (PFloat (num bv))" by simp
    then have "isl (profitability_metrics_kw ?kw)"
      by (simp add: profitability_metrics_kw_def)
    with d show False by simp
  qed
  then have life: "map_of ?kw ''project_lifetime'' = map_of base ''project_lifetime''"
    by (simp add: mo)
  have "profitability_metrics_kw ?kw = profitability_metrics_kw base"
    unfolding profitability_metrics_kw_def keys none arg life ..
  with d show ?thesis by simp
qed

text \<open>
  Claim C7, as amended. \<open>sensitivity_analysis\<close> returns what the perturbed calls of
  the aggregator return, in order, and stops at the first call that raises: there is no
  \<open>try\<close> around the call, so one failing call makes the whole analysis fail. When it
  returns its rows, there is exactly one row for each pair of a parameter present in the
  base dictionary and a percentage, in the given order, and none for an absent parameter;
  each row holds the metrics for the base dictionary with that one entry replaced by
  \<open>base_value * (1 + change_percent / 100)\<close> and every other entry as it was; and the
  net present value of a row with change 0 is that of the unperturbed base case.
\<close>

theorem sensitivity_analysis_rows:
  "fst (sensitivity_analysis base_parameters sensitivity_ranges s) =
     until_error (perturbed_rows base_parameters sensitivity_ranges) \<and>
   (\<forall>param_name base_value change_percent name.
      map_of (perturbed base_parameters param_name base_value change_percent) name =
        (if name = param_name
         then Some (PFloat (num base_value * (1 + change_percent / 100)))
         else map_of base_parameters name)) \<and>
   (fst (sensitivity_analysis base_parameters sensitivity_ranges s) = Inr rows \<longrightarrow>
      map (\<lambda>r. (row_parameter r, row_change_percent r)) rows =
        concat (map (\<lambda>(param_name, changes).
                       case map_of base_parameters param_name of
                         None \<Rightarrow> []
                       | Some base_value \<Rightarrow> map (Pair param_name) changes)
                    sensitivity_ranges) \<and>
      (\<forall>r\<in>set rows. \<exists>base_value d.
          map_of base_parameters (row_parameter r) = Some base_value \<and>
          profitability_metrics_kw
            (perturbed base_parameters (row_parameter r) base_value (row_change_percent r))
            = Inr d \<and>
          row_npv r = npv d \<and> row_irr r = irr d \<and>
          row_payback_period r = payback_period d) \<and>
      (\<forall>r\<in>set rows. row_change_percent r = 0 \<longrightarrow>
          (\<exists>d. profitability_metrics_kw base_parameters = Inr d \<and> row_npv r = npv d)))"
proof (intro conjI impI)
  show "fst (sensitivity_analysis base_parameters sensitivity_ranges s) =
     until_error (perturbed_rows base_parameters sensitivity_ranges)"
    by (rule sensitivity_analysis_fst)
next
  show "\<forall>param_name base_value change_percent name.
      map_of (perturbed base_parameters param_name base_value change_percent) name =
        (if name = param_name
         then Some (PFloat (num base_value * (1 + change_percent / 100)))
         else map_of base_parameters name)"
    by (simp add: map_of_perturbed)
next
  assume "fst (sensitivity_analysis base_parameters sensitivity_ranges s) = Inr rows"
  then have all: "perturbed_rows base_parameters sensitivity_ranges = map Inr rows"
    by (simp add: sensitivity_analysis_fst until_error_Inr)
  have each: "\<exists>base_value d.
          map_of base_parameters (row_parameter r) = Some base_value \<and>
          profitability_metrics_kw
            (perturbed base_parameters (row_parameter r) base_value (row_change_percent r))
            = Inr d \<and>
          row_npv r = npv d \<and> row_irr r = irr d \<and>
          row_payback_period r = payback_period d" if "r \<in> set rows" for r
  proof -
    from that all have "Inr r \<in> set (perturbed_rows base_parameters sensitivity_ranges)"
      by simp
    from perturbed_rows_member [OF this] obtain p bv c
      where "map_of base_parameters p = Some bv"
        and "perturbed_row base_parameters p bv c = Inr r" by blast
    with perturbed_row_Inr [of base_parameters p bv c r] show ?thesis by auto
  qed
  show "map (\<lambda>r. (row_parameter r, row_change_percent r)) rows =
        concat (map (\<lambda>(param_name, changes).
                       case map_of base_parameters param_name of
                         None \<Rightarrow> []
                       | Some base_value \<Rightarrow> map (Pair param_name) changes)
                    sensitivity_ranges)"
    by (rule perturbed_rows_keys [OF all])
  show "\<forall>r\<in>set rows. \<exists>base_value d.
          map_of base_parameters (row_parameter r) = Some base_value \<and>
          profitability_metrics_kw
            (perturbed base_parameters (row_parameter r) base_value (row_change_percent r))
            = Inr d \<and>
          row_npv r = npv d \<and> row_irr r = irr d \<and>
          row_payback_period r = payback_period d"
    using each by blast
  show "\<forall>r\<in>set rows. row_change_percent r = 0 \<longrightarrow>
          (\<exists>d. profitability_metrics_kw base_parameters = Inr d \<and> row_npv r = npv d)"
  proof (intro ballI impI)
    fix r
    assume r: "r \<in> set rows" and zero: "row_change_percent r = 0"
    from each [OF r] zero obtain bv d
      where bv: "map_of base_parameters (row_parameter r) = Some bv"
        and d: "profitability_metrics_kw (perturbed base_parameters (row_parameter r) bv 0)
                  = Inr d"
        and v: "row_npv r = npv d" by auto
    from metrics_unperturbed [OF bv d] v
    show "\<exists>d. profitability_metrics_kw base_parameters = Inr d \<and> row_npv r = npv d"
      by blast
  qed
qed

lemma metrics_base_case:
  "profitability_metrics_kw base_case =
     Inr \<lparr> npv = 0, irr = 10, payback_period = 10 / 11, roi = 110, profitability_index = 1,
           annual_cash_flow = 110, total_revenue = 110, total_costs = 0,
           break_even_price = 0 \<rparr>"
  by (simp add: profitability_metrics_kw_def base_case_def parameter_names_def
      required_names_def kwarg_def profitability_metrics_breakeven)

lemma sensitivity_base_case:
  "fst (sensitivity_analysis base_case [(''annual_revenue'', [0]), (''inflation'', [10])]
          new_analyzer) =
     Inr [\<lparr> row_parameter = ''annual_revenue'', row_change_percent = 0, row_npv = 0,
            row_irr = 10, row_payback_period = 10 / 11 \<rparr>]"
  by (simp add: sensitivity_analysis_def analyze_profitability_kw_def
      profitability_metrics_kw_def base_case_def parameter_names_def required_names_def
      kwarg_def profitability_metrics_breakeven store_results_def read_results_def
      new_analyzer_def init_analyzer_def)

theorem sensitivity_analysis_rows_witness:
  "fst (sensitivity_analysis base_case [(''annual_revenue'', [0]), (''inflation'', [10])]
          new_analyzer) =
     Inr [\<lparr> row_parameter = ''annual_revenue'', row_change_percent = 0, row_npv = 0,
            row_irr = 10, row_payback_period = 10 / 11 \<rparr>] \<and>
   (\<exists>d. profitability_metrics_kw base_case = Inr d \<and> npv d = 0)"
  using sensitivity_analysis_rows [of base_case
      "[(''annual_revenue'', [0]), (''inflation'', [10])]" new_analyzer
      "[\<lparr> row_parameter = ''annual_revenue'', row_change_percent = 0, row_npv = 0,
            row_irr = 10, row_payback_period = 10 / 11 \<rparr>]"]
    sensitivity_base_case
  by simp

text \<open>
  Claim C7 as stated fails: the base case has a capital investment, and the change of
  \<open>-100\<close> per cent makes it zero, which the aggregator refuses; the analysis raises
  and returns no row for that pair.
\<close>

theorem sensitivity_analysis_failure_counterexample:
  "map_of base_case ''capital_investment'' = Some (PFloat 100) \<and>
   fst (sensitivity_analysis base_case [(''capital_investment'', [- 100])] new_analyzer) =
     Inl ValueError"
  by (simp add: sensitivity_analysis_def analyze_profitability_kw_def
      profitability_metrics_kw_def base_case_def parameter_names_def required_names_def
      kwarg_def profitability_metrics_zero_investment store_results_def)

subsection \<open>monte_carlo_analysis\<close>

lemma set_update_cases:
  "x \<in> set (AList.update k v al) \<Longrightarrow> x = (k, v) \<or> x \<in> set al"
  by (induction al) (auto split: if_splits)

lemma max0_nonneg: "max0 v = Inr c \<Longrightarrow> 0 \<le> num c"
  by (auto simp: max0_def split: dist_value.splits if_splits)

lemma sample_params_nonneg:
  "sample_params sample parameters sim_params g = (Inr used, g') \<Longrightarrow>
   \<forall>(name, v)\<in>set sim_params. 0 \<le> num v \<Longrightarrow>
   \<forall>(name, v)\<in>set used. 0 \<le> num v"
proof (induction parameters arbitrary: sim_params g)
  case Nil
  then show ?case by simp
next
  case (Cons pd parameters)
  obtain param_name param_dist where pd: "pd = (param_name, param_dist)" by (cases pd)
  from Cons.prems(1) pd obtain v g1 c where
    "sampled_value sample param_dist g = (Inr v, g1)" and c: "max0 v = Inr c"
    and rest: "sample_params sample parameters (AList.update param_name c sim_params) g1
                 = (Inr used, g')"
    by (auto split: prod.splits sum.splits)
  have "\<forall>(name, w)\<in>set (AList.update param_name c sim_params). 0 \<le> num w"
    using Cons.prems(2) max0_nonneg [OF c] by (auto dest: set_update_cases)
  from Cons.IH [OF rest this] show ?case .
qed

lemma clamped_update:
  "list_all2 clamped_entry drawn used \<Longrightarrow> max0 v = Inr c \<Longrightarrow>
     list_all2 clamped_entry (AList.update k v drawn) (AList.update k c used)"
proof (induction drawn used rule: list_all2_induct)
  case Nil
  then show ?case by (simp add: clamped_entry_def)
next
  case (Cons x xs y ys)
  obtain a b where x: "x = (a, b)" by (cases x)
  obtain a' b' where y: "y = (a', b')" by (cases y)
  from Cons x y show ?case by (auto simp: clamped_entry_def)
qed

lemma sample_params_clamped:
  "sample_params sample parameters used0 g = (Inr used, g') \<Longrightarrow>
   list_all2 clamped_entry drawn0 used0 \<Longrightarrow>
   \<exists>drawn. drawn_values sample parameters drawn0 g = (Inr drawn, g') \<and>
           list_all2 clamped_entry drawn used"
proof (induction parameters arbitrary: used0 drawn0 g)
  case Nil
  then show ?case by simp
next
  case (Cons pd parameters)
  obtain param_name param_dist where pd: "pd = (param_name, param_dist)" by (cases pd)
  from Cons.prems(1) pd obtain v g1 c where
    v: "sampled_value sample param_dist g = (Inr v, g1)" and c: "max0 v = Inr c"
    and rest: "sample_params sample parameters (AList.update param_name c used0) g1
                 = (Inr used, g')"
    by (auto split: prod.splits sum.splits)
  from Cons.IH [OF rest clamped_update [OF Cons.prems(2) c]] v pd show ?case by simp
qed

lemma sampled_runs_nonneg:
  "sampled_runs sample parameters n g = Inr runs \<Longrightarrow> sim_params \<in> set runs \<Longrightarrow>
     \<forall>(name, v)\<in>set sim_params. 0 \<le> num v"
proof (induction n arbitrary: g runs)
  case 0
  then show ?case by simp
next
  case (Suc n)
  from Suc.prems(1) obtain used g1 rest where
    sp: "sample_params sample parameters [] g = (Inr used, g1)"
    and more: "sampled_runs sample parameters n g1 = Inr rest"
    and runs: "runs = used # rest"
    by (auto split: prod.splits sum.splits)
  from Suc.prems(2) runs consider "sim_params = used" | "sim_params \<in> set rest" by auto
  then show ?case
  proof cases
    case 1
    with sample_params_nonneg [OF sp] show ?thesis by simp
  next
    case 2
    from Suc.IH [OF more this] show ?thesis .
  qed
qed

lemma sampled_runs_clamped:
  "sampled_runs sample parameters n g = Inr runs \<Longrightarrow>
     \<exists>raws. drawn_runs sample parameters n g = Inr raws \<and>
            list_all2 (list_all2 clamped_entry) raws runs"
proof (induction n arbitrary: g runs)
  case 0
  then show ?case by simp
next
  case (Suc n)
  from Suc.prems obtain used g1 rest where
    sp: "sample_params sample parameters [] g = (Inr used, g1)"
    and more: "sampled_runs sample parameters n g1 = Inr rest"
    and runs: "runs = used # rest"
    by (auto split: prod.splits sum.splits)
  from sample_params_clamped [OF sp, of "[]"] obtain drawn where
    d: "drawn_values sample parameters [] g = (Inr drawn, g1)"
       "list_all2 clamped_entry drawn used" by auto
  from Suc.IH [OF more] obtain raws where
    "drawn_runs sample parameters n g1 = Inr raws"
    "list_all2 (list_all2 clamped_entry) raws rest" by blast
  with d runs show ?case by simp
qed

lemma length_sampled_runs:
  "sampled_runs sample parameters n g = Inr runs \<Longrightarrow> length runs = n"
  by (induction n arbitrary: g runs) (auto split: prod.splits sum.splits)

lemma length_numbered_rows: "length (numbered_rows k ds) = length ds"
  by (induction ds arbitrary: k) auto

lemma length_successes_le: "length (successes rs) \<le> length rs"
  by (induction rs rule: successes.induct) auto

lemma length_successes_all: "\<forall>r\<in>set rs. \<not> isl r \<Longrightarrow> length (successes rs) = length rs"
  by (induction rs rule: successes.induct) auto

lemma monte_carlo_loop_fst:
  "fst (monte_carlo_loop sample parameters n results g s) =
     (case sampled_runs sample parameters n g of
        Inl e \<Rightarrow> Inl e
      | Inr runs \<Rightarrow>
          Inr (results @ numbered_rows (length results)
                 (successes (map profitability_metrics_kw runs))))"
proof (induction n arbitrary: results g s)
  case 0
  then show ?case by simp
next
  case (Suc n)
  obtain r0 g' where sp: "sample_params sample parameters [] g = (r0, g')"
    by (cases "sample_params sample parameters [] g")
  show ?case
  proof (cases r0)
    case (Inl e)
    with sp show ?thesis by simp
  next
    case used: (Inr kw)
    obtain r s' where call: "analyze_profitability_kw kw s = (r, s')"
      by (cases "analyze_profitability_kw kw s")
    show ?thesis
    proof (cases r)
      case (Inl e)
      with call analyze_profitability_kw_Inl [of kw s e s']
      have "profitability_metrics_kw kw = Inl e" by simp
      with sp used call Inl Suc.IH show ?thesis by (simp split: sum.splits)
    next
      case (Inr a)
      with call analyze_profitability_kw_Inr [of kw s a s'] obtain d
        where d: "profitability_metrics_kw kw = Inr d" "read_results s' a = Inr d"
        by blast
      with sp used call Inr Suc.IH show ?thesis by (simp split: sum.splits)
    qed
  qed
qed

lemma monte_carlo_loop_prefix:
  "prefix (store s) (store (snd (snd (monte_carlo_loop sample parameters n results g s))))"
proof (induction n arbitrary: results g s)
  case 0
  then show ?case by simp
next
  case (Suc n)
  obtain r0 g' where sp: "sample_params sample parameters [] g = (r0, g')"
    by (cases "sample_params sample parameters [] g")
  show ?case
  proof (cases r0)
    case (Inl e)
    with sp show ?thesis by simp
  next
    case used: (Inr kw)
    obtain r s' where call: "analyze_profitability_kw kw s = (r, s')"
      by (cases "analyze_profitability_kw kw s")
    have step: "prefix (store s) (store s')"
      using store_results_prefix [of s "profitability_metrics_kw kw"] call
      by (simp add: analyze_profitability_kw_def)
    have "\<exists>results'. monte_carlo_loop sample parameters (Suc n) results g s =
            monte_carlo_loop sample parameters n results' g' s'"
      using sp used call by (auto split: sum.splits)
    then obtain results' where "monte_carlo_loop sample parameters (Suc n) results g s =
            monte_carlo_loop sample parameters n results' g' s'" ..
    with Suc.IH [of s' results' g'] step show ?thesis
      using prefix_order.order_trans by fastforce
  qed
qed

text \<open>
  Claim C8, as amended. The generator is a parameter, and a look-up or a draw may raise.
  \<open>monte_carlo_analysis\<close> returns rows exactly when no look-up and no draw of its
  \<open>n_simulations\<close> simulations raises; such an exception is outside the \<open>try\<close> and ends
  the whole analysis. When it returns: every value handed to the aggregator is
  \<open>max(0, value)\<close> of the value drawn for that parameter in that simulation, hence at
  least 0; the rows are those of the simulations whose call succeeded, in order and
  numbered from 1, the failed ones being skipped while the later ones still run; so there
  are at most \<open>n_simulations\<close> rows, and exactly that many when no call fails.
  (\<open>range\<close> runs a negative count zero times.)
\<close>

theorem monte_carlo_analysis_rows:
  "fst (monte_carlo_analysis sample parameters n_simulations g s) =
     (case sampled_runs sample parameters (nat n_simulations) g of
        Inl e \<Rightarrow> Inl e
      | Inr runs \<Rightarrow>
          Inr (numbered_rows 0 (successes (map profitability_metrics_kw runs)))) \<and>
   (fst (monte_carlo_analysis sample parameters n_simulations g s) = Inr rows \<longrightarrow>
      (\<exists>runs raws.
          sampled_runs sample parameters (nat n_simulations) g = Inr runs \<and>
          drawn_runs sample parameters (nat n_simulations) g = Inr raws \<and>
          list_all2 (list_all2 clamped_entry) raws runs \<and>
          (\<forall>sim_params\<in>set runs. \<forall>(name, v)\<in>set sim_params. 0 \<le> num v) \<and>
          length runs = nat n_simulations \<and>
          rows = numbered_rows 0 (successes (map profitability_metrics_kw runs)) \<and>
          length rows \<le> nat n_simulations \<and>
          ((\<forall>sim_params\<in>set runs. \<not> isl (profitability_metrics_kw sim_params)) \<longrightarrow>
             length rows = nat n_simulations)))"
proof (intro conjI impI)
  show first: "fst (monte_carlo_analysis sample parameters n_simulations g s) =
     (case sampled_runs sample parameters (nat n_simulations) g of
        Inl e \<Rightarrow> Inl e
      | Inr runs \<Rightarrow>
          Inr (numbered_rows 0 (successes (map profitability_metrics_kw runs))))"
    by (simp add: monte_carlo_analysis_def monte_carlo_loop_fst split: sum.splits)
  assume "fst (monte_carlo_analysis sample parameters n_simulations g s) = Inr rows"
  with first obtain runs where
    runs: "sampled_runs sample parameters (nat n_simulations) g = Inr runs"
    and rows: "rows = numbered_rows 0 (successes (map profitability_metrics_kw runs))"
    by (auto split: sum.splits)
  from sampled_runs_clamped [OF runs] obtain raws where
    raws: "drawn_runs sample parameters (nat n_simulations) g = Inr raws"
      "list_all2 (list_all2 clamped_entry) raws runs" by blast
  have len: "length runs = nat n_simulations" by (rule length_sampled_runs [OF runs])
  have "length rows \<le> length (map profitability_metrics_kw runs)"
    unfolding rows length_numbered_rows by (rule length_successes_le)
  with len have le: "length rows \<le> nat n_simulations" by simp
  have all: "length rows = nat n_simulations"
    if "\<forall>sim_params\<in>set runs. \<not> isl (profitability_metrics_kw sim_params)"
  proof -
    from that have "\<forall>r\<in>set (map profitability_metrics_kw runs). \<not> isl r" by simp
    from length_successes_all [OF this] len show ?thesis
      by (simp add: rows length_numbered_rows)
  qed
  have clamp: "\<forall>sim_params\<in>set runs. \<forall>(name, v)\<in>set sim_params. 0 \<le> num v"
  proof (rule ballI)
    fix sim_params
    assume "sim_params \<in> set runs"
    with runs show "\<forall>(name, v)\<in>set sim_params. 0 \<le> num v"
      by (rule sampled_runs_nonneg)
  qed
  from runs raws clamp len rows le all
  show "\<exists>runs raws.
          sampled_runs sample parameters (nat n_simulations) g = Inr runs \<and>
          drawn_runs sample parameters (nat n_simulations) g = Inr raws \<and>
          list_all2 (list_all2 clamped_entry) raws runs \<and>
          (\<forall>sim_params\<in>set runs. \<forall>(name, v)\<in>set sim_params. 0 \<le> num v) \<and>
          length runs = nat n_simulations \<and>
          rows = numbered_rows 0 (successes (map profitability_metrics_kw runs)) \<and>
          length rows \<le> nat n_simulations \<and>
          ((\<forall>sim_params\<in>set runs. \<not> isl (profitability_metrics_kw sim_params)) \<longrightarrow>
             length rows = nat n_simulations)"
    by (intro exI [of _ runs] exI [of _ raws] conjI impI) simp_all
qed

lemma sampled_runs_simulated_case:
  "sampled_runs scripted_sampler simulated_case 3 [100, - 5, 100] =
     Inr [[(''capital_investment'', PFloat 100), (''annual_revenue'', PFloat 110),
           (''annual_operating_costs'', PInt 0), (''project_lifetime'', PInt 1),
           (''discount_rate'', PFloat (1 / 10)), (''tax_rate'', PInt 0),
           (''salvage_value'', PInt 0)],
          [(''capital_investment'', PInt 0), (''annual_revenue'', PFloat 110),
           (''annual_operating_costs'', PInt 0), (''project_lifetime'', PInt 1),
           (''discount_rate'', PFloat (1 / 10)), (''tax_rate'', PInt 0),
           (''salvage_value'', PInt 0)],
          [(''capital_investment'', PFloat 100), (''annual_revenue'', PFloat 110),
           (''annual_operating_costs'', PInt 0), (''project_lifetime'', PInt 1),
           (''discount_rate'', PFloat (1 / 10)), (''tax_rate'', PInt 0),
           (''salvage_value'', PInt 0)]]"
  by (simp add: numeral_3_eq_3 simulated_case_def fixed_value_def scripted_sampler_def
      sampled_value_def numpy_random_def getitem_def max0_def)

lemma drawn_runs_simulated_case:
  "drawn_runs scripted_sampler simulated_case 3 [100, - 5, 100] =
     Inr [[(''capital_investment'', Num (PFloat 100)), (''annual_revenue'', Num (PFloat 110)),
           (''annual_operating_costs'', Num (PFloat 0)), (''project_lifetime'', Num (PInt 1)),
           (''discount_rate'', Num (PFloat (1 / 10))), (''tax_rate'', Num (PFloat 0)),
           (''salvage_value'', Num (PFloat 0))],
          [(''capital_investment'', Num (PFloat (- 5))), (''annual_revenue'', Num (PFloat 110)),
           (''annual_operating_costs'', Num (PFloat 0)), (''project_lifetime'', Num (PInt 1)),
           (''discount_rate'', Num (PFloat (1 / 10))), (''tax_rate'', Num (PFloat 0)),
           (''salvage_value'', Num (PFloat 0))],
          [(''capital_investment'', Num (PFloat 100)), (''annual_revenue'', Num (PFloat 110)),
           (''annual_operating_costs'', Num (PFloat 0)), (''project_lifetime'', Num (PInt 1)),
           (''discount_rate'', Num (PFloat (1 / 10))), (''tax_rate'', Num (PFloat 0)),
           (''salvage_value'', Num (PFloat 0))]]"
  by (simp add: numeral_3_eq_3 simulated_case_def fixed_value_def scripted_sampler_def
      sampled_value_def numpy_random_def getitem_def)

lemma metrics_simulated_success:
  "profitability_metrics_kw
     [(''capital_investment'', PFloat 100), (''annual_revenue'', PFloat 110),
      (''annual_operating_costs'', PInt 0), (''project_lifetime'', PInt 1),
      (''discount_rate'', PFloat (1 / 10)), (''tax_rate'', PInt 0),
      (''salvage_value'', PInt 0)] =
     Inr \<lparr> npv = 0, irr = 10, payback_period = 10 / 11, roi = 110, profitability_index = 1,
           annual_cash_flow = 110, total_revenue = 110, total_costs = 0,
           break_even_price = 0 \<rparr>"
  by (simp add: profitability_metrics_kw_def parameter_names_def required_names_def
      kwarg_def profitability_metrics_breakeven)

lemma metrics_simulated_failure:
  "profitability_metrics_kw
     [(''capital_investment'', PInt 0), (''annual_revenue'', PFloat 110),
      (''annual_operating_costs'', PInt 0), (''project_lifetime'', PInt 1),
      (''discount_rate'', PFloat (1 / 10)), (''tax_rate'', PInt 0),
      (''salvage_value'', PInt 0)] = Inl ValueError"
  by (simp add: profitability_metrics_kw_def parameter_names_def required_names_def
      kwarg_def profitability_metrics_zero_investment)

theorem monte_carlo_analysis_rows_witness:
  "fst (monte_carlo_analysis scripted_sampler simulated_case 3 [100, - 5, 100] new_analyzer) =
     Inr [\<lparr> sim_simulation = 1, sim_npv = 0, sim_irr = 10, sim_payback_period = 10 / 11,
             sim_roi = 110 \<rparr>,
          \<lparr> sim_simulation = 2, sim_npv = 0, sim_irr = 10, sim_payback_period = 10 / 11,
             sim_roi = 110 \<rparr>] \<and>
   (\<exists>runs raws.
      sampled_runs scripted_sampler simulated_case (nat 3) [100, - 5, 100] = Inr runs \<and>
      drawn_runs scripted_sampler simulated_case (nat 3) [100, - 5, 100] = Inr raws \<and>
      list_all2 (list_all2 clamped_entry) raws runs \<and>
      map (\<lambda>d. map_of d ''capital_investment'') raws =
        [Some (Num (PFloat 100)), Some (Num (PFloat (- 5))), Some (Num (PFloat 100))] \<and>
      map (\<lambda>kw. map_of kw ''capital_investment'') runs =
        [Some (PFloat 100), Some (PInt 0), Some (PFloat 100)] \<and>
      map (\<lambda>kw. isl (profitability_metrics_kw kw)) runs = [False, True, False])"
proof -
  let ?rows = "[\<lparr> sim_simulation = 1, sim_npv = 0, sim_irr = 10,
                   sim_payback_period = 10 / 11, sim_roi = 110 \<rparr>,
                \<lparr> sim_simulation = 2, sim_npv = 0, sim_irr = 10,
                   sim_payback_period = 10 / 11, sim_roi = 110 \<rparr>]"
  note inst = monte_carlo_analysis_rows
    [of scripted_sampler simulated_case 3 "[100, - 5, 100]" new_analyzer ?rows]
  from inst have run:
    "fst (monte_carlo_analysis scripted_sampler simulated_case 3 [100, - 5, 100] new_analyzer)
       = Inr ?rows"
    by (simp add: sampled_runs_simulated_case metrics_simulated_success
        metrics_simulated_failure)
  with inst obtain runs raws where
    r: "sampled_runs scripted_sampler simulated_case (nat 3) [100, - 5, 100] = Inr runs"
       "drawn_runs scripted_sampler simulated_case (nat 3) [100, - 5, 100] = Inr raws"
       "list_all2 (list_all2 clamped_entry) raws runs"
    by blast
  from r(1) have runs: "map (\<lambda>kw. map_of kw ''capital_investment'') runs =
        [Some (PFloat 100), Some (PInt 0), Some (PFloat 100)]"
      "map (\<lambda>kw. isl (profitability_metrics_kw kw)) runs = [False, True, False]"
    by (auto simp: sampled_runs_simulated_case metrics_simulated_success
        metrics_simulated_failure)
  from r(2) have raws: "map (\<lambda>d. map_of d ''capital_investment'') raws =
        [Some (Num (PFloat 100)), Some (Num (PFloat (- 5))), Some (Num (PFloat 100))]"
    by (auto simp: drawn_runs_simulated_case)
  from run r runs raws show ?thesis
    by (intro conjI exI [of _ runs] exI [of _ raws]) assumption+
qed

text \<open>
  Claim C8 as stated fails for a specification whose look-up raises: a parameter of an
  unknown type without a \<open>'mean'\<close> makes \<open>param_dist['mean']\<close> raise \<open>KeyError\<close>
  before the \<open>try\<close> is entered, and the analysis ends with that exception instead of
  returning rows.
\<close>

theorem monte_carlo_analysis_lookup_counterexample:
  "fst (monte_carlo_analysis scripted_sampler
          [(''capital_investment'', [(''type'', Str ''constant'')])] 3 [] new_analyzer) =
     Inl KeyError"
  by (simp add: monte_carlo_analysis_def numeral_3_eq_3 sampled_value_def getitem_def)

section \<open>The analyzer's state across calls\<close>

text \<open>
  Claim C10, as amended. For an analyzer in any state \<open>s\<close>:
  \<^item> each of the three operations leaves every dictionary object that existed before
    the call as it was (the store after the call extends the store before it), so no
    result returned earlier is ever changed;
  \<^item> a successful \<open>analyze_profitability\<close> returns a reference that no earlier object
    has, and the dictionary behind it is the one computed from the arguments alone; a
    failing call leaves the analyzer as it was;
  \<^item> the tables of \<open>sensitivity_analysis\<close> and \<open>monte_carlo_analysis\<close> are the same
    from any two analyzer states \<open>s\<close> and \<open>s0\<close>, so nothing an earlier call left behind
    affects a later one;
  \<^item> but the analyzer does keep state across calls: after a successful
    \<open>analyze_profitability\<close> its attribute \<open>results\<close> is the very reference handed
    to the caller, until the next successful call. No operation reads that attribute.
\<close>

theorem analyzer_frame:
  "prefix (store s)
     (store (snd (analyze_profitability capital_investment annual_revenue
                    annual_operating_costs project_lifetime discount_rate tax_rate
                    salvage_value s))) \<and>
   (case fst (analyze_profitability capital_investment annual_revenue
                annual_operating_costs project_lifetime discount_rate tax_rate
                salvage_value s) of
      Inl e \<Rightarrow>
        profitability_metrics capital_investment annual_revenue annual_operating_costs
          project_lifetime discount_rate tax_rate salvage_value = Inl e \<and>
        snd (analyze_profitability capital_investment annual_revenue
               annual_operating_costs project_lifetime discount_rate tax_rate
               salvage_value s) = s
    | Inr a \<Rightarrow>
        a = length (store s) \<and>
        read_results
          (snd (analyze_profitability capital_investment annual_revenue
                  annual_operating_costs project_lifetime discount_rate tax_rate
                  salvage_value s)) a =
          profitability_metrics capital_investment annual_revenue annual_operating_costs
            project_lifetime discount_rate tax_rate salvage_value \<and>
        self_results
          (snd (analyze_profitability capital_investment annual_revenue
                  annual_operating_costs project_lifetime discount_rate tax_rate
                  salvage_value s)) = a) \<and>
   prefix (store s)
     (store (snd (sensitivity_analysis base_parameters sensitivity_ranges s))) \<and>
   fst (sensitivity_analysis base_parameters sensitivity_ranges s) =
     fst (sensitivity_analysis base_parameters sensitivity_ranges s0) \<and>
   prefix (store s)
     (store (snd (snd (monte_carlo_analysis sample parameters n_simulations g s)))) \<and>
   fst (monte_carlo_analysis sample parameters n_simulations g s) =
     fst (monte_carlo_analysis sample parameters n_simulations g s0)"
proof (intro conjI)
  let ?m = "profitability_metrics capital_investment annual_revenue annual_operating_costs
              project_lifetime discount_rate tax_rate salvage_value"
  show "prefix (store s)
     (store (snd (analyze_profitability capital_investment annual_revenue
                    annual_operating_costs project_lifetime discount_rate tax_rate
                    salvage_value s)))"
    by (simp add: analyze_profitability_def store_results_prefix)
  show "case fst (analyze_profitability capital_investment annual_revenue
                annual_operating_costs project_lifetime discount_rate tax_rate
                salvage_value s) of
      Inl e \<Rightarrow> ?m = Inl e \<and>
        snd (analyze_profitability capital_investment annual_revenue
               annual_operating_costs project_lifetime discount_rate tax_rate
               salvage_value s) = s
    | Inr a \<Rightarrow>
        a = length (store s) \<and>
        read_results
          (snd (analyze_profitability capital_investment annual_revenue
                  annual_operating_costs project_lifetime discount_rate tax_rate
                  salvage_value s)) a = ?m \<and>
        self_results
          (snd (analyze_profitability capital_investment annual_revenue
                  annual_operating_costs project_lifetime discount_rate tax_rate
                  salvage_value s)) = a"
    by (cases ?m) (simp_all add: analyze_profitability_def store_results_def read_results_def)
  show "prefix (store s)
     (store (snd (sensitivity_analysis base_parameters sensitivity_ranges s)))"
    by (simp add: sensitivity_analysis_def sensitivity_params_prefix)
  show "fst (sensitivity_analysis base_parameters sensitivity_ranges s) =
     fst (sensitivity_analysis base_parameters sensitivity_ranges s0)"
    by (simp add: sensitivity_analysis_fst)
  show "prefix (store s)
     (store (snd (snd (monte_carlo_analysis sample parameters n_simulations g s))))"
    by (simp add: monte_carlo_analysis_def monte_carlo_loop_prefix)
  show "fst (monte_carlo_analysis sample parameters n_simulations g s) =
     fst (monte_carlo_analysis sample parameters n_simulations g s0)"
    by (simp add: monte_carlo_analysis_def monte_carlo_loop_fst)
qed

theorem analyzer_frame_witness:
  "prefix (store new_analyzer)
     (store (snd (analyze_profitability 100 110 0 1 (1 / 10) 0 0 new_analyzer))) \<and>
   fst (analyze_profitability 100 110 0 1 (1 / 10) 0 0 new_analyzer) = Inr 1 \<and>
   length (store new_analyzer) = 1 \<and>
   read_results (snd (analyze_profitability 100 110 0 1 (1 / 10) 0 0 new_analyzer)) 1 =
     profitability_metrics 100 110 0 1 (1 / 10) 0 0 \<and>
   fst (sensitivity_analysis base_case [(''annual_revenue'', [0])] new_analyzer) =
     fst (sensitivity_analysis base_case [(''annual_revenue'', [0])]
            (snd (analyze_profitability 100 110 0 1 (1 / 10) 0 0 new_analyzer)))"
  using analyzer_frame [of new_analyzer 100 110 0 1 "1 / 10" 0 0 base_case
      "[(''annual_revenue'', [0])]"
      "snd (analyze_profitability 100 110 0 1 (1 / 10) 0 0 new_analyzer)"
      scripted_sampler simulated_case 0 "[]"]
  by (simp add: analyze_profitability_breakeven) (simp add: new_analyzer_def init_analyzer_def)

text \<open>
  Claim C10 as stated fails where it says that no state is kept across calls: a new
  analyzer refers to the empty dictionary at reference 0; after one successful call it
  refers to the result dictionary at reference 1, the same reference that was returned.
\<close>

theorem analyzer_keeps_last_result_counterexample:
  "self_results new_analyzer = 0 \<and>
   store new_analyzer ! 0 = Empty_dict \<and>
   fst (analyze_profitability 100 110 0 1 (1 / 10) 0 0 new_analyzer) = Inr 1 \<and>
   self_results (snd (analyze_profitability 100 110 0 1 (1 / 10) 0 0 new_analyzer)) = 1 \<and>
   snd (analyze_profitability 100 110 0 1 (1 / 10) 0 0 new_analyzer) \<noteq> new_analyzer"
  by (simp add: analyze_profitability_breakeven) (simp add: new_analyzer_def init_analyzer_def)

end
